theory Spec2Isabelle
  imports Complex_Main
begin

section \<open>JavaScript values used by the rule engine\<close>

subsection \<open>Numbers\<close>

text \<open>
  A JavaScript number is an IEEE double. A finite double is modelled by the real number
  it denotes (\<open>Fin 0\<close> is \<open>+0\<close>), next to the four special values. Comparisons of
  doubles are exact, so \<open>js_lt\<close> is the comparison of the source. The result of
  \<open>+\<close>, \<open>-\<close>, \<open>*\<close> or \<open>/\<close> on finite numbers is the exact result rounded to the
  nearest double, to the even one of two, by \<open>toDouble\<close>: it overflows to an infinity and
  underflows to a zero as the arithmetic of the source does. A number that is read from
  the input is any \<open>jsnum\<close>; a statement that needs a finite input to be a double says
  so (\<open>double53\<close>).
\<close>

datatype jsnum = Fin real | NegZero | PosInf | NegInf | NaN

text \<open>The real value of a finite number (both zeros are 0).\<close>

fun fin_val :: "jsnum \<Rightarrow> real" where
  "fin_val (Fin r) = r"
| "fin_val _ = 0"

text \<open>\<open>a < b\<close> of the source: false as soon as one side is \<open>NaN\<close>.\<close>

fun js_lt :: "jsnum \<Rightarrow> jsnum \<Rightarrow> bool" where
  "js_lt NaN _ = False"
| "js_lt _ NaN = False"
| "js_lt PosInf _ = False"
| "js_lt _ NegInf = False"
| "js_lt NegInf _ = True"
| "js_lt _ PosInf = True"
| "js_lt a b = (fin_val a < fin_val b)"

text \<open>\<open>a > b\<close> of the source.\<close>

definition js_gt :: "jsnum \<Rightarrow> jsnum \<Rightarrow> bool" where
  "js_gt a b = js_lt b a"

text \<open>
  \<open>undefined > b\<close>: a property that is absent reads as \<open>undefined\<close>, which the
  comparison converts to \<open>NaN\<close>.
\<close>

definition js_gt_opt :: "jsnum option \<Rightarrow> jsnum \<Rightarrow> bool" where
  "js_gt_opt a b = (case a of None \<Rightarrow> js_gt NaN b | Some x \<Rightarrow> js_gt x b)"

text \<open>The sign bit, and the tests for zero and infinity.\<close>

fun negative :: "jsnum \<Rightarrow> bool" where
  "negative (Fin r) = (r < 0)"
| "negative NegZero = True"
| "negative NegInf = True"
| "negative PosInf = False"
| "negative NaN = False"

fun is_zero :: "jsnum \<Rightarrow> bool" where
  "is_zero (Fin r) = (r = 0)"
| "is_zero NegZero = True"
| "is_zero _ = False"

fun is_inf :: "jsnum \<Rightarrow> bool" where
  "is_inf PosInf = True"
| "is_inf NegInf = True"
| "is_inf _ = False"

definition signed_zero :: "bool \<Rightarrow> jsnum" where
  "signed_zero neg = (if neg then NegZero else Fin 0)"

definition signed_inf :: "bool \<Rightarrow> jsnum" where
  "signed_inf neg = (if neg then NegInf else PosInf)"

text \<open>
  Rounding to the nearest double. \<open>round_even\<close> rounds a real to the nearest integer,
  to the even one of two. The doubles around \<open>x\<close> are the multiples of
  \<open>2 powr (exponent x - 52)\<close>: a magnitude in the normal range has 53 bits, and below
  \<open>2 powr (- 1022)\<close> the spacing stays \<open>2 powr (- 1074)\<close>. A rounded magnitude of
  \<open>2 ^ 1024\<close> or more is an infinity; a nonzero real that rounds to zero gives the zero
  of its sign.
\<close>

definition round_even :: "real \<Rightarrow> int" where
  "round_even m =
     (let f = \<lfloor>m\<rfloor>; d = m - of_int f
      in if d < 1 / 2 then f else if 1 / 2 < d then f + 1 else if even f then f else f + 1)"

definition exponent :: "real \<Rightarrow> int" where
  "exponent x = max \<lfloor>log 2 \<bar>x\<bar>\<rfloor> (- 1022)"

definition toDouble :: "real \<Rightarrow> jsnum" where
  "toDouble x =
     (if x = 0 then Fin 0
      else let q = 2 powr of_int (exponent x - 52);
               n = round_even (\<bar>x\<bar> / q);
               v = of_int n * q
           in if 2 ^ 1024 \<le> v then signed_inf (x < 0)
              else if n = 0 then signed_zero (x < 0)
              else Fin (if x < 0 then - v else v))"

text \<open>Unary minus and \<open>Math.abs\<close>.\<close>

fun js_neg :: "jsnum \<Rightarrow> jsnum" where
  "js_neg (Fin r) = (if r = 0 then NegZero else Fin (- r))"
| "js_neg NegZero = Fin 0"
| "js_neg PosInf = NegInf"
| "js_neg NegInf = PosInf"
| "js_neg NaN = NaN"

fun js_abs :: "jsnum \<Rightarrow> jsnum" where
  "js_abs (Fin r) = Fin \<bar>r\<bar>"
| "js_abs NegZero = Fin 0"
| "js_abs PosInf = PosInf"
| "js_abs NegInf = PosInf"
| "js_abs NaN = NaN"

text \<open>
  \<open>a + b\<close>: infinities of opposite sign give \<open>NaN\<close>; the sum is \<open>-0\<close> only when both
  operands are \<open>-0\<close>; a finite sum is rounded.
\<close>

definition js_add :: "jsnum \<Rightarrow> jsnum \<Rightarrow> jsnum" where
  "js_add a b =
     (if a = NaN \<or> b = NaN then NaN
      else if is_inf a then (if is_inf b \<and> a \<noteq> b then NaN else a)
      else if is_inf b then b
      else if a = NegZero \<and> b = NegZero then NegZero
      else toDouble (fin_val a + fin_val b))"

definition js_sub :: "jsnum \<Rightarrow> jsnum \<Rightarrow> jsnum" where
  "js_sub a b = js_add a (js_neg b)"

text \<open>
  \<open>a * b\<close>: zero times infinity is \<open>NaN\<close>; the sign is the exclusive or of the signs; a
  finite product is rounded.
\<close>

definition js_mul :: "jsnum \<Rightarrow> jsnum \<Rightarrow> jsnum" where
  "js_mul a b =
     (if a = NaN \<or> b = NaN then NaN
      else if is_inf a \<or> is_inf b then
        (if is_zero a \<or> is_zero b then NaN else signed_inf (negative a \<noteq> negative b))
      else if is_zero a \<or> is_zero b then signed_zero (negative a \<noteq> negative b)
      else toDouble (fin_val a * fin_val b))"

text \<open>
  \<open>a / b\<close>: never an exception. A nonzero number over a zero is an infinity, zero over
  zero and infinity over infinity are \<open>NaN\<close>; a finite quotient is rounded.
\<close>

definition js_div :: "jsnum \<Rightarrow> jsnum \<Rightarrow> jsnum" where
  "js_div a b =
     (if a = NaN \<or> b = NaN then NaN
      else if is_inf a then (if is_inf b then NaN else signed_inf (negative a \<noteq> negative b))
      else if is_inf b then signed_zero (negative a \<noteq> negative b)
      else if is_zero b then
        (if is_zero a then NaN else signed_inf (negative a \<noteq> negative b))
      else if is_zero a then signed_zero (negative a \<noteq> negative b)
      else toDouble (fin_val a / fin_val b))"

subsection \<open>Number.prototype.toFixed\<close>

text \<open>The decimal digits of a natural number, most significant first.\<close>

definition digit_char :: "nat \<Rightarrow> char" where
  "digit_char d = char_of (48 + d)"

function decimal :: "nat \<Rightarrow> string" where
  "decimal n = (if n < 10 then [digit_char n] else decimal (n div 10) @ [digit_char (n mod 10)])"
  by pat_completeness auto
termination
  by (relation "measure (\<lambda>n. n)") auto

text \<open>
  The text of a number. \<open>Digits s\<close> is the text \<open>s\<close>. A finite number of magnitude
  \<open>10^21\<close> or more is printed by \<open>toFixed\<close> as \<open>Number::toString\<close> prints it, in
  exponent notation with the shortest digits that identify the double: these digits
  are not modelled, and \<open>LargeToString x\<close> stands for that text.
\<close>

datatype numtext = Digits string | LargeToString real

text \<open>
  Steps 10 and 11 of \<open>toFixed(f)\<close> on a magnitude \<open>x \<ge> 0\<close>: \<open>n\<close> is the integer with
  \<open>n / 10^f\<close> nearest to \<open>x\<close>, the larger one of two; its digits are padded with zeros
  to \<open>f + 1\<close> places and the point is put before the last \<open>f\<close>.
\<close>

definition fixed_digits :: "nat \<Rightarrow> real \<Rightarrow> string" where
  "fixed_digits f x =
     (let n = nat \<lfloor>x * 10 ^ f + 1 / 2\<rfloor>;
          m = decimal n;
          m' = (if f \<noteq> 0 \<and> length m \<le> f
                then replicate (f + 1 - length m) (CHR ''0'') @ m else m)
      in if f = 0 then m'
         else take (length m' - f) m' @ [CHR ''.''] @ drop (length m' - f) m')"

definition toFixed_real :: "nat \<Rightarrow> real \<Rightarrow> numtext" where
  "toFixed_real f x =
     (if 10 ^ 21 \<le> \<bar>x\<bar> then LargeToString x
      else Digits ((if x < 0 then [CHR ''-''] else []) @ fixed_digits f \<bar>x\<bar>))"

fun toFixed :: "nat \<Rightarrow> jsnum \<Rightarrow> numtext" where
  "toFixed f NaN = Digits ''NaN''"
| "toFixed f PosInf = Digits ''Infinity''"
| "toFixed f NegInf = Digits ''-Infinity''"
| "toFixed f NegZero = toFixed_real f 0"
| "toFixed f (Fin r) = toFixed_real f r"

subsection \<open>Strings\<close>

text \<open>
  A string is the list of the bytes of its UTF-8 encoding. \<open>toLowerCase\<close> is modelled
  on the letters A to Z and leaves every other byte as it is. This decides
  \<open>includes('profession')\<close> as the source does: the bytes of a character outside ASCII
  are all above 127, and no such character has a lower-case form that supplies a
  letter of the keyword followed by the keyword's next letter.
\<close>

definition toLowerCase_char :: "char \<Rightarrow> char" where
  "toLowerCase_char c =
     (if (65::nat) \<le> of_char c \<and> of_char c \<le> (90::nat) then char_of (of_char c + (32::nat)) else c)"

definition toLowerCase :: "string \<Rightarrow> string" where
  "toLowerCase s = map toLowerCase_char s"

text \<open>\<open>s.startsWith(pat)\<close>\<close>

fun startsWith :: "string \<Rightarrow> string \<Rightarrow> bool" where
  "startsWith _ [] = True"
| "startsWith [] (p # ps) = False"
| "startsWith (c # cs) (p # ps) = (c = p \<and> startsWith cs ps)"

text \<open>\<open>s.includes(pat)\<close>: the pattern starts at some position of \<open>s\<close>.\<close>

fun includes_str :: "string \<Rightarrow> string \<Rightarrow> bool" where
  "includes_str [] pat = startsWith [] pat"
| "includes_str (c # cs) pat = (startsWith (c # cs) pat \<or> includes_str cs pat)"

text \<open>
  The words of the specification, for comparison: the text contains the keyword
  case-insensitively when its lower-cased form is some prefix, the keyword, some suffix.
\<close>

definition contains_ci :: "string \<Rightarrow> string \<Rightarrow> bool" where
  "contains_ci s kw = (\<exists>pre suf. toLowerCase s = pre @ kw @ suf)"

text \<open>
  The words of the specification, for comparison: a number exceeds a finite threshold
  when it is a finite value strictly above it, or plus infinity.
\<close>

definition exceeds :: "jsnum \<Rightarrow> real \<Rightarrow> bool" where
  "exceeds x t = (case x of Fin r \<Rightarrow> t < r | NegZero \<Rightarrow> t < 0 | PosInf \<Rightarrow> True
                  | NegInf \<Rightarrow> False | NaN \<Rightarrow> False)"

subsection \<open>Exceptions\<close>

text \<open>
  An exception of the source: a \<open>TypeError\<close> of the runtime (a property read or a
  method call on \<open>null\<close> or \<open>undefined\<close>), and the two \<open>Error\<close>s that background.js
  throws. A function that can raise returns \<open>Inl\<close> of the exception.
\<close>

datatype error = TypeError | UnauthorizedDataSource | UnknownDocumentType

section \<open>Client profile and compliance deriver (scripts/popup.js)\<close>

text \<open>An entry of \<open>requiredDocuments.conditional\<close>: \<open>{name, reason, id}\<close>.\<close>

record conditionalDoc =
  doc_name :: string
  doc_reason :: string
  doc_id :: string

record requiredDocs =
  mandatory :: "string list"
  conditional :: "conditionalDoc list"

text \<open>
  The object built by \<open>determineCompliance\<close>. \<open>audit\<close> is assigned from
  \<open>profile.auditApplicable\<close>, which may be absent: \<open>None\<close> is \<open>undefined\<close>.
\<close>

record compliance =
  gst :: bool
  incomeTax :: bool
  tds :: bool
  audit :: "bool option"
  mca :: bool

text \<open>
  The profile object. The first nine fields are the ones \<open>handleProfileSubmit\<close> fills
  from the form; the others are properties that an object may or may not carry
  (\<open>None\<close>: the property is absent and reads as \<open>undefined\<close>). The nature of business
  is read by a method call, \<open>profile.businessNature.toLowerCase()\<close>, which raises a
  \<open>TypeError\<close> on an object without that property or with a value there that is not a
  string: \<open>None\<close> stands for both.
\<close>

record profile =
  clientName :: string
  entityType :: string
  businessNature :: "string option"
  financialYear :: string
  turnover :: jsnum
  gstStatus :: string
  accountingMethod :: string
  previousYearAvailable :: bool
  profileDate :: string
  contribution :: "jsnum option"
  auditApplicable :: "bool option"
  requiredDocuments :: "requiredDocs option"
  complianceRequirements :: "compliance option"

text \<open>
  What \<open>handleProfileSubmit\<close> reads: the values of the form's elements, the result of
  \<open>parseFloat\<close> on the turnover field (any number, \<open>NaN\<close> for a text that is not
  numeric), the state of the check box and the clock.
\<close>

record form =
  form_clientName :: string
  form_entityType :: string
  form_businessNature :: string
  form_financialYear :: string
  form_turnover :: jsnum
  form_gstStatus :: string
  form_accountingMethod :: string
  form_previousYearAvailable :: bool
  form_now :: string

text \<open>The object literal \<open>formData\<close> of \<open>handleProfileSubmit\<close>.\<close>

definition formData :: "form \<Rightarrow> profile" where
  "formData f =
     \<lparr> clientName = form_clientName f,
       entityType = form_entityType f,
       businessNature = Some (form_businessNature f),
       financialYear = form_financialYear f,
       turnover = form_turnover f,
       gstStatus = form_gstStatus f,
       accountingMethod = form_accountingMethod f,
       previousYearAvailable = form_previousYearAvailable f,
       profileDate = form_now f,
       contribution = None,
       auditApplicable = None,
       requiredDocuments = None,
       complianceRequirements = None \<rparr>"

text \<open>Truthiness of a property that holds a boolean or is absent.\<close>

definition truthy :: "bool option \<Rightarrow> bool" where
  "truthy b = (case b of None \<Rightarrow> False | Some v \<Rightarrow> v)"

text \<open>
  \<open>isAuditApplicable\<close>: the first three rules return without reading the nature of
  business; the last one calls \<open>toLowerCase\<close> on it.
\<close>

definition isAuditApplicable :: "profile \<Rightarrow> error + bool" where
  "isAuditApplicable p =
     (if entityType p = ''private'' \<or> entityType p = ''public'' then Inr True
      else if entityType p = ''llp'' then
        Inr (js_gt (turnover p) (Fin 4000000) \<or> js_gt_opt (contribution p) (Fin 2500000))
      else if entityType p = ''partnership'' then Inr (js_gt (turnover p) (Fin 10000000))
      else case businessNature p of
             None \<Rightarrow> Inl TypeError
           | Some text \<Rightarrow>
               if includes_str (toLowerCase text) ''profession''
               then Inr (js_gt (turnover p) (Fin 5000000))
               else Inr (js_gt (turnover p) (Fin 10000000)))"

text \<open>The rupee sign U+20B9 in UTF-8.\<close>

definition rupee :: string where
  "rupee = [char_of (226::nat), char_of (130::nat), char_of (185::nat)]"

definition gstReturns_doc :: conditionalDoc where
  "gstReturns_doc = \<lparr> doc_name = ''GST Returns (GSTR-1, GSTR-3B)'',
                   doc_reason = ''GST registered entity'', doc_id = ''gstReturns'' \<rparr>"

definition bankStatements_doc :: conditionalDoc where
  "bankStatements_doc = \<lparr> doc_name = ''Bank Statements'',
                       doc_reason = ''Turnover exceeds '' @ rupee @ ''50 lakhs'',
                       doc_id = ''bankStatements'' \<rparr>"

definition previousYear_doc :: conditionalDoc where
  "previousYear_doc = \<lparr> doc_name = ''Previous Year Financials'',
                     doc_reason = ''For comparative analysis'', doc_id = ''previousYear'' \<rparr>"

definition auditReport_doc :: conditionalDoc where
  "auditReport_doc = \<lparr> doc_name = ''Audit Report'',
                    doc_reason = ''Audit applicable'', doc_id = ''auditReport'' \<rparr>"

text \<open>Each \<open>if (c) docs.conditional.push(d)\<close> appends \<open>d\<close> when \<open>c\<close> holds.\<close>

definition push_if :: "bool \<Rightarrow> 'a \<Rightarrow> 'a list \<Rightarrow> 'a list" where
  "push_if c d xs = (if c then xs @ [d] else xs)"

definition determineRequiredDocuments :: "profile \<Rightarrow> requiredDocs" where
  "determineRequiredDocuments p =
     (let c0 = [];
          c1 = push_if (gstStatus p = ''registered'') gstReturns_doc c0;
          c2 = push_if (js_gt (turnover p) (Fin 5000000)) bankStatements_doc c1;
          c3 = push_if (previousYearAvailable p) previousYear_doc c2;
          c4 = push_if (truthy (auditApplicable p)) auditReport_doc c3
      in \<lparr> mandatory = [''balanceSheet'', ''profitLoss'', ''trialBalance''],
           conditional = c4 \<rparr>)"

definition determineCompliance :: "profile \<Rightarrow> compliance" where
  "determineCompliance p =
     \<lparr> gst = (gstStatus p = ''registered''),
       incomeTax = True,
       tds = js_gt (turnover p) (Fin 10000000),
       audit = auditApplicable p,
       mca = (entityType p \<in> set [''private'', ''public'', ''llp'']) \<rparr>"

text \<open>
  \<open>analyzeClientProfile\<close> copies the form data and adds the three derived properties.
  Each of the three helpers is called on \<open>formData\<close>, the argument, not on the copy
  that already holds \<open>auditApplicable\<close>. An exception of \<open>isAuditApplicable\<close> ends the
  call; the two other helpers read only properties whose absence raises nothing. The
  function has no \<open>throw\<close> and tests no field for validity.
\<close>

definition analyzeClientProfile :: "profile \<Rightarrow> error + profile" where
  "analyzeClientProfile fd =
     (case isAuditApplicable fd of
        Inl err \<Rightarrow> Inl err
      | Inr applicable \<Rightarrow>
          Inr (fd \<lparr> auditApplicable := Some applicable,
                   requiredDocuments := Some (determineRequiredDocuments fd),
                   complianceRequirements := Some (determineCompliance fd) \<rparr>))"

section \<open>Report generation and the usage counter (scripts/popup.js)\<close>

text \<open>The review kept in \<open>reviewResults\<close>: sections of classified items.\<close>

record reviewItem =
  item_type :: string
  item_icon :: string
  item_text :: string

record reviewSection =
  review_title :: string
  review_items :: "reviewItem list"

record review =
  review_timestamp :: string
  review_clientName :: string
  review_financialYear :: string
  review_sections :: "(string \<times> reviewSection) list"

text \<open>The metadata kept of an uploaded file.\<close>

record fileMeta =
  file_name :: string
  file_size :: nat
  file_type :: string
  file_lastModified :: nat

text \<open>The fields of the \<open>CAReviewEngine\<close> object.\<close>

record engine =
  clientProfile :: "profile option"
  uploadedDocuments :: "(string \<times> fileMeta) list"
  reviewResults :: "review option"
  usageCount :: int
  maxUsage :: int

text \<open>A section of the report has a title and either a text or a list of points.\<close>

record reportSection =
  section_title :: string
  section_content :: "string option"
  section_points :: "string list option"

record report =
  report_title :: string
  report_clientName :: string
  report_financialYear :: string
  reportDate :: string
  report_sections :: "reportSection list"
  disclaimer :: string

definition prose :: "string \<Rightarrow> string \<Rightarrow> reportSection" where
  "prose t c = \<lparr> section_title = t, section_content = Some c, section_points = None \<rparr>"

definition bullets :: "string \<Rightarrow> string list \<Rightarrow> reportSection" where
  "bullets t ps = \<lparr> section_title = t, section_content = None, section_points = Some ps \<rparr>"

text \<open>
  \<open>createReport\<close> reads \<open>this.clientProfile\<close> and the clock; \<open>today\<close> is the text of
  \<open>now.toLocaleDateString('en-IN')\<close>. Reading a property of a profile that is
  \<open>null\<close>, or of \<open>complianceRequirements\<close> when the profile has none, throws.
\<close>

definition createReport :: "engine \<Rightarrow> string \<Rightarrow> error + report" where
  "createReport e today =
     (case clientProfile e of
        None \<Rightarrow> Inl TypeError
      | Some p \<Rightarrow>
          (case complianceRequirements p of
             None \<Rightarrow> Inl TypeError
           | Some c \<Rightarrow>
               Inr \<lparr> report_title = ''Chartered Accountant Review Report'',
                     report_clientName = clientName p,
                     report_financialYear = financialYear p,
                     reportDate = today,
                     report_sections =
                       [ prose ''1. Executive Summary''
                           (''This report presents a rule-based review of financial documents for ''
                            @ clientName p @ '' for the financial year '' @ financialYear p
                            @ ''. The review is based on statutory requirements, accounting standards, and tax provisions.''),
                         bullets ''2. Key Observations''
                           [ ''Balance sheet structurally verified with no mathematical errors'',
                             ''Gross profit margin shows improvement from previous year'',
                             ''GST turnover mismatch identified requiring reconciliation'',
                             ''Debtor collection period exceeds industry standards'' ],
                         bullets ''3. Items Requiring Clarification''
                           [ ''Significant increase in current liabilities (35% YoY)'',
                             ''Personal vehicle expenses requiring disallowance computation'',
                             ''Cash expenses exceeding statutory limits'',
                             ''ITC reconciliation with GSTR-2B pending'' ],
                         bullets ''4. High-Risk Areas''
                           [ ''GST turnover mismatch of '' @ rupee @ ''2,50,000'',
                             ''Potential Section 40A(3) disallowance on cash payments'',
                             ''Personal expense disallowance may impact tax liability'' ],
                         bullets ''5. Compliance Status''
                           [ ''Tax Audit: ''
                               @ (if truthy (auditApplicable p) then ''Applicable'' else ''Not Applicable''),
                             ''GST Filing: ''
                               @ (if gstStatus p = ''registered'' then ''Regular'' else ''Not Applicable''),
                             ''Income Tax Return: Filing required'',
                             ''MCA Filings: '' @ (if mca c then ''Applicable'' else ''Not Applicable'') ],
                         bullets ''6. Next Steps''
                           [ ''Obtain clarifications on flagged items'',
                             ''Reconcile GST returns with books of accounts'',
                             ''Compute disallowances under Income Tax Act'',
                             ''Prepare tax audit report if applicable'',
                             ''File returns within statutory due dates'' ] ],
                     disclaimer = ''This report is based on rule-based review and publicly available statutory information. Final decisions must be taken by a qualified Chartered Accountant. This report does not constitute audit, assurance, or legal opinion.'' \<rparr>))"

text \<open>
  The page popup.html is not among the sources, so what \<open>showLoading\<close> finds in it is a
  parameter: no element with the identifier of the tab, or a tab without an element of
  the class \<open>tab-content\<close> inside it, or a tab with one.
\<close>

datatype pane = NoTab | TabWithoutContent | TabWithContent

text \<open>
  \<open>showLoading(tabId, message)\<close>: without the tab it does nothing; it sets the
  \<open>innerHTML\<close> of what \<open>querySelector('.tab-content')\<close> returns, which throws when
  that is \<open>null\<close>.
\<close>

fun showLoading :: "pane \<Rightarrow> error + unit" where
  "showLoading NoTab = Inr ()"
| "showLoading TabWithoutContent = Inl TypeError"
| "showLoading TabWithContent = Inr ()"

text \<open>
  The popup, the report tab of its page, the three keys of the local storage that the
  popup reads (\<open>None\<close>: the key is not stored, as the counter is before the
  installation handler has run) and the number of \<open>setTimeout\<close> callbacks of
  \<open>generateReport\<close> that are scheduled and have not run yet.
\<close>

record world =
  popup :: engine
  reportTab :: pane
  stored_clientProfile :: "profile option"
  stored_usageCount :: "int option"
  stored_reviewResults :: "review option"
  timers :: nat

text \<open>
  What happens to the counter, one event at a time:
  \<^item> \<open>Install\<close>: \<open>handleInstall\<close> of background.js with the reason \<open>install\<close> stores
    \<open>usageCount: 0\<close>;
  \<^item> \<open>OpenPopup\<close>: the constructor and \<open>loadData\<close>; the timers of a popup that was
    closed are gone;
  \<^item> \<open>SubmitProfile f\<close>: \<open>handleProfileSubmit\<close> on the form \<open>f\<close>, which also stores the
    profile;
  \<^item> \<open>ClickGenerate\<close>: \<open>generateReport\<close> up to its \<open>setTimeout\<close>;
  \<^item> \<open>TimerFires today\<close>: one scheduled callback of \<open>generateReport\<close> runs.

  \<open>processDocuments\<close> reads the counter and does not change it; it is not among the
  events.
\<close>

datatype event = Install | OpenPopup | SubmitProfile form | ClickGenerate | TimerFires string

definition initializeStorage :: "world \<Rightarrow> world" where
  "initializeStorage w = w \<lparr> stored_usageCount := Some 0 \<rparr>"

text \<open>
  \<open>loadData\<close>: the three fields are read from the storage; \<open>data.usageCount || 0\<close>
  gives 0 for an absent counter as for a counter 0.
\<close>

definition loadData :: "world \<Rightarrow> world" where
  "loadData w =
     w \<lparr> popup := (popup w)
           \<lparr> clientProfile := stored_clientProfile w,
             reviewResults := stored_reviewResults w,
             usageCount := (case stored_usageCount w of None \<Rightarrow> 0 | Some n \<Rightarrow> n) \<rparr> \<rparr>"

definition newEngine :: engine where
  "newEngine = \<lparr> clientProfile = None, uploadedDocuments = [], reviewResults = None,
                  usageCount = 0, maxUsage = 99 \<rparr>"

text \<open>
  \<open>handleProfileSubmit\<close> assigns the analysed profile to \<open>this.clientProfile\<close>. An
  exception of \<open>analyzeClientProfile\<close> ends the call before the assignment.
\<close>

definition handleProfileSubmit :: "form \<Rightarrow> engine \<Rightarrow> engine" where
  "handleProfileSubmit f e =
     (case analyzeClientProfile (formData f) of
        Inl err \<Rightarrow> e
      | Inr p \<Rightarrow> e \<lparr> clientProfile := Some p \<rparr>)"

text \<open>
  \<open>generateReport\<close>: at the limit it shows a notification and returns; below the limit
  it shows the loading pane and schedules the callback. An exception of \<open>showLoading\<close>
  ends the call before the callback is scheduled.
\<close>

definition generateReport :: "world \<Rightarrow> world" where
  "generateReport w =
     (if maxUsage (popup w) \<le> usageCount (popup w) then w
      else case showLoading (reportTab w) of
             Inl err \<Rightarrow> w
           | Inr u \<Rightarrow> w \<lparr> timers := timers w + 1 \<rparr>)"

text \<open>
  The callback: \<open>createReport\<close>, \<open>displayReport\<close>, then \<open>this.usageCount++\<close> and the
  store of the new count. An exception of \<open>createReport\<close> ends the callback before the
  increment.
\<close>

definition generateReport_callback :: "string \<Rightarrow> world \<Rightarrow> world" where
  "generateReport_callback today w =
     (case createReport (popup w) today of
        Inl err \<Rightarrow> w
      | Inr r \<Rightarrow>
          w \<lparr> popup := (popup w) \<lparr> usageCount := usageCount (popup w) + 1 \<rparr>,
              stored_usageCount := Some (usageCount (popup w) + 1) \<rparr>)"

fun step :: "world \<Rightarrow> event \<Rightarrow> world" where
  "step w Install = initializeStorage w"
| "step w OpenPopup = loadData (w \<lparr> popup := newEngine, timers := 0 \<rparr>)"
| "step w (SubmitProfile f) =
     (case analyzeClientProfile (formData f) of
        Inl err \<Rightarrow> w
      | Inr p \<Rightarrow>
          w \<lparr> popup := handleProfileSubmit f (popup w),
              stored_clientProfile := clientProfile (handleProfileSubmit f (popup w)) \<rparr>)"
| "step w ClickGenerate = generateReport w"
| "step w (TimerFires today) =
     (if timers w = 0 then w
      else generateReport_callback today (w \<lparr> timers := timers w - 1 \<rparr>))"

definition run :: "world \<Rightarrow> event list \<Rightarrow> world" where
  "run w evs = foldl step w evs"

text \<open>The browser before the extension is installed, for a given page.\<close>

definition fresh :: "pane \<Rightarrow> world" where
  "fresh tab =
     \<lparr> popup = newEngine, reportTab = tab, stored_clientProfile = None,
       stored_usageCount = None, stored_reviewResults = None, timers = 0 \<rparr>"

text \<open>\<open>checkUsageLimit\<close> of background.js: what it reports of the stored counter.\<close>

record usageLimit =
  current :: int
  max_usage :: int
  remaining :: int
  exceeded :: bool

definition checkUsageLimit :: "world \<Rightarrow> usageLimit" where
  "checkUsageLimit w =
     (let usageCount = (case stored_usageCount w of None \<Rightarrow> 0 | Some n \<Rightarrow> n);
          maxUsage = 99
      in \<lparr> current = usageCount, max_usage = maxUsage, remaining = maxUsage - usageCount,
           exceeded = (maxUsage \<le> usageCount) \<rparr>)"

section \<open>Statutory data and document validation (background.js)\<close>

subsection \<open>Statutory data\<close>

datatype jsval = NumVal real | StrVal string

type_synonym entries = "(string \<times> jsval) list"
type_synonym categories = "(string \<times> entries) list"

text \<open>
  Reading \<open>obj[key]\<close> on an object literal: an own property, or a member that every
  object inherits from \<open>Object.prototype\<close> (a function or an object, which is truthy),
  or \<open>undefined\<close>.
\<close>

datatype 'a property = Own 'a | Inherited | Absent

definition objectPrototypeMembers :: "string list" where
  "objectPrototypeMembers =
     [''constructor'', ''hasOwnProperty'', ''isPrototypeOf'', ''propertyIsEnumerable'',
      ''toLocaleString'', ''toString'', ''valueOf'', ''__proto__'',
      ''__defineGetter__'', ''__defineSetter__'', ''__lookupGetter__'', ''__lookupSetter__'']"

definition getProperty :: "(string \<times> 'a) list \<Rightarrow> string \<Rightarrow> 'a property" where
  "getProperty obj k =
     (case map_of obj k of
        Some v \<Rightarrow> Own v
      | None \<Rightarrow> if k \<in> set objectPrototypeMembers then Inherited else Absent)"

definition approvedSources :: "(string \<times> string) list" where
  "approvedSources =
     [ (''income-tax'', ''https://www.incometax.gov.in''),
       (''gst'', ''https://www.gst.gov.in''),
       (''mca'', ''https://www.mca.gov.in''),
       (''icai'', ''https://www.icai.org'') ]"

definition statutoryData :: "(string \<times> categories) list" where
  "statutoryData =
     [ (''income-tax'',
         [ (''tax-audit-threshold'',
             [ (''business'', NumVal 10000000), (''profession'', NumVal 5000000),
               (''presumptive44AD'', NumVal 20000000), (''lastUpdated'', StrVal ''2024-04-01'') ]),
           (''itr-due-dates'',
             [ (''nonAudit'', StrVal ''2025-07-31''), (''audit'', StrVal ''2025-10-31''),
               (''transferPricing'', StrVal ''2025-11-30'') ]),
           (''tds-rates'',
             [ (''salary'', StrVal (''30% above '' @ rupee @ ''10L'')),
               (''contractorIndividual'', StrVal ''1%''),
               (''contractorCompany'', StrVal ''2%''),
               (''professionalFees'', StrVal ''10%''),
               (''rent'', StrVal ''10%'') ]) ]),
       (''gst'',
         [ (''registration-threshold'',
             [ (''goods'', NumVal 4000000), (''services'', NumVal 2000000),
               (''specialCategory'', NumVal 1000000), (''lastUpdated'', StrVal ''2024-04-01'') ]),
           (''gst-rates'',
             [ (''nil'', StrVal ''Essential items''), (''5%'', StrVal ''Common use items''),
               (''12%'', StrVal ''Standard items''), (''18%'', StrVal ''Most goods and services''),
               (''28%'', StrVal ''Luxury and sin goods'') ]),
           (''return-types'',
             [ (''GSTR-1'', StrVal ''Outward supplies''), (''GSTR-3B'', StrVal ''Summary return''),
               (''GSTR-9'', StrVal ''Annual return''),
               (''GSTR-9C'', StrVal ''Reconciliation statement'') ]) ]),
       (''mca'',
         [ (''company-filings'',
             [ (''Form AOC-4'', StrVal ''Financial statements - Annual''),
               (''Form MGT-7'', StrVal ''Annual return''),
               (''Form ADT-1'', StrVal ''Appointment of auditor''),
               (''Form DIR-3 KYC'', StrVal ''Director KYC'') ]),
           (''llp-filings'',
             [ (''Form 8'', StrVal ''Statement of account - Annual''),
               (''Form 11'', StrVal ''Annual return'') ]) ]) ]"

text \<open>
  What a lookup returns: the categories of a source (\<open>{}\<close> is \<open>Categories []\<close>), or the
  member of \<open>Object.prototype\<close> that the name of the source denotes.
\<close>

datatype statutory = Categories categories | PrototypeMember string

text \<open>\<open>data[source] || {}\<close>; the query is not read.\<close>

definition getStatutoryDataSimulated :: "string \<Rightarrow> string \<Rightarrow> statutory" where
  "getStatutoryDataSimulated source query =
     (case getProperty statutoryData source of
        Own t \<Rightarrow> Categories t
      | Inherited \<Rightarrow> PrototypeMember source
      | Absent \<Rightarrow> Categories [])"

definition fetchStatutoryData :: "string \<Rightarrow> string \<Rightarrow> error + statutory" where
  "fetchStatutoryData source query =
     (case getProperty approvedSources source of
        Absent \<Rightarrow> Inl UnauthorizedDataSource
      | _ \<Rightarrow> Inr (getStatutoryDataSimulated source query))"

text \<open>
  The datum that a query for the key \<open>query\<close> of the source \<open>source\<close> asks for (the
  categories of the source are its lookup keys), if the table holds it.
\<close>

definition datum :: "string \<Rightarrow> string \<Rightarrow> entries option" where
  "datum source query =
     (case map_of statutoryData source of None \<Rightarrow> None | Some t \<Rightarrow> map_of t query)"

subsection \<open>Validation results\<close>

text \<open>
  The messages that the validators push, one constructor for each template of the source,
  holding the values that the template interpolates:
  \<^item> \<open>NotBalanced\<close>: Balance Sheet does not balance;
  \<^item> \<open>NegativeAssets names\<close>: Negative values found in asset accounts, and the names
    joined by commas;
  \<^item> \<open>LowCurrentRatio t\<close>: Low current ratio (\<open>t\<close>): Liquidity concern, where \<open>t\<close> is
    \<open>currentRatio.toFixed(2)\<close>;
  \<^item> \<open>AssetChange t\<close>: Significant change in total assets: \<open>t\<close>% YoY, where \<open>t\<close> is
    \<open>assetChange.toFixed(1)\<close>;
  \<^item> \<open>GrossProfitMismatch\<close>, \<open>NetProfitMismatch\<close>: the calculation mismatches;
  \<^item> \<open>DisallowableExpense d a\<close>: Potential disallowable expense: \<open>d\<close> (\<open>a\<close> rupees);
  \<^item> \<open>LargeCashPayments n\<close>: \<open>n\<close> cash payments exceeding 10,000 rupees found -
    Section 40A(3) applicable.
\<close>

datatype message =
    NotBalanced
  | NegativeAssets "string list"
  | LowCurrentRatio numtext
  | AssetChange numtext
  | GrossProfitMismatch
  | NetProfitMismatch
  | DisallowableExpense string jsnum
  | LargeCashPayments nat

text \<open>
  The result object. \<open>errors\<close> are the high-risk findings, \<open>warnings\<close> the ones that
  require clarification, \<open>info\<close> the normal ones.
\<close>

record results =
  valid :: bool
  errors :: "message list"
  warnings :: "message list"
  info :: "message list"

subsection \<open>Balance sheet\<close>

record previousYearData =
  prev_totalAssets :: jsnum

text \<open>
  The fields that \<open>validateBalanceSheet\<close> reads. A numeric field that is absent behaves
  in the arithmetic as \<open>NaN\<close> does; \<open>negativeAssets\<close> and \<open>previousYear\<close> may be absent.
  The literal \<open>0.01\<close> of the source is the double nearest to one hundredth,
  \<open>toDouble (1 / 100)\<close>; the literals 1, 20 and 100 are doubles.
\<close>

record balanceSheet =
  totalAssets :: jsnum
  totalLiabilities :: jsnum
  equity :: jsnum
  negativeAssets :: "string list option"
  currentAssets :: jsnum
  currentLiabilities :: jsnum
  previousYear :: "previousYearData option"

definition validateBalanceSheet :: "balanceSheet \<Rightarrow> results" where
  "validateBalanceSheet d =
     (let unbalanced =
            js_gt (js_abs (js_sub (totalAssets d) (js_add (totalLiabilities d) (equity d))))
                  (toDouble (1 / 100));
          w1 = (case negativeAssets d of
                  None \<Rightarrow> []
                | Some names \<Rightarrow> if 0 < length names then [NegativeAssets names] else []);
          currentRatio = js_div (currentAssets d) (currentLiabilities d);
          w2 = push_if (js_lt currentRatio (Fin 1)) (LowCurrentRatio (toFixed 2 currentRatio)) w1;
          i1 = (case previousYear d of
                  None \<Rightarrow> []
                | Some py \<Rightarrow>
                    (let assetChange =
                           js_mul (js_div (js_sub (totalAssets d) (prev_totalAssets py))
                                          (prev_totalAssets py)) (Fin 100)
                     in if js_gt (js_abs assetChange) (Fin 20)
                        then [AssetChange (toFixed 1 assetChange)] else []))
      in \<lparr> valid = (\<not> unbalanced),
           errors = (if unbalanced then [NotBalanced] else []),
           warnings = w2,
           info = i1 \<rparr>)"

subsection \<open>Profit and loss\<close>

record expense =
  description :: string
  amount :: jsnum
  paymentMode :: string

record profitLoss =
  revenue :: jsnum
  directCosts :: jsnum
  grossProfit :: jsnum
  operatingExpenses :: jsnum
  otherExpenses :: jsnum
  otherIncome :: jsnum
  netProfit :: jsnum
  expenses :: "expense list"

definition disallowableKeywords :: "string list" where
  "disallowableKeywords = [''personal'', ''penalty'', ''fine'', ''political donation'']"

text \<open>The body of the \<open>forEach\<close>: the warning that one expense adds, if any.\<close>

definition disallowable :: "expense \<Rightarrow> message list" where
  "disallowable e =
     (if list_ex (\<lambda>keyword. includes_str (toLowerCase (description e)) keyword) disallowableKeywords
      then [DisallowableExpense (description e) (amount e)] else [])"

text \<open>The predicate of the \<open>filter\<close> that selects the large cash payments.\<close>

definition largeCash :: "expense \<Rightarrow> bool" where
  "largeCash e = (paymentMode e = ''cash'' \<and> js_gt (amount e) (Fin 10000))"

definition validateProfitLoss :: "profitLoss \<Rightarrow> results" where
  "validateProfitLoss d =
     (let calculatedGP = js_sub (revenue d) (directCosts d);
          e1 = push_if
                 (js_gt (js_abs (js_sub calculatedGP (grossProfit d))) (toDouble (1 / 100)))
                 GrossProfitMismatch [];
          calculatedNP =
            js_add (js_sub (js_sub (grossProfit d) (operatingExpenses d)) (otherExpenses d))
                   (otherIncome d);
          e2 = push_if
                 (js_gt (js_abs (js_sub calculatedNP (netProfit d))) (toDouble (1 / 100)))
                 NetProfitMismatch e1;
          w1 = concat (map disallowable (expenses d));
          largeCashPayments = filter largeCash (expenses d);
          w2 = push_if (0 < length largeCashPayments)
                 (LargeCashPayments (length largeCashPayments)) w1
      in \<lparr> valid = True, errors = e2, warnings = w2, info = [] \<rparr>)"

text \<open>Recognisers of two kinds of message.\<close>

fun isLowCurrentRatio :: "message \<Rightarrow> bool" where
  "isLowCurrentRatio (LowCurrentRatio t) = True"
| "isLowCurrentRatio _ = False"

fun isLargeCashPayments :: "message \<Rightarrow> bool" where
  "isLargeCashPayments (LargeCashPayments n) = True"
| "isLargeCashPayments _ = False"

section \<open>The words of the specification, and example inputs\<close>

text \<open>
  The operation \<open>derive\<close> of the specification is the call of \<open>analyzeClientProfile\<close>.
  The words of the specification, for comparison. The entity types are the four that
  the source names and the three others of the specification's enumeration; a
  well-formed profile has a finite turnover that is not negative and an entity type of
  the enumeration.
\<close>

definition entityTypeEnumeration :: "string list" where
  "entityTypeEnumeration =
     [''individual'', ''proprietorship'', ''partnership'', ''llp'', ''private'', ''public'',
      ''other'']"

definition finiteNonNegative :: "jsnum \<Rightarrow> bool" where
  "finiteNonNegative x =
     (case x of Fin r \<Rightarrow> 0 \<le> r | NegZero \<Rightarrow> True | PosInf \<Rightarrow> False | NegInf \<Rightarrow> False
      | NaN \<Rightarrow> False)"

definition wellFormed :: "profile \<Rightarrow> bool" where
  "wellFormed fd =
     (finiteNonNegative (turnover fd) \<and> entityType fd \<in> set entityTypeEnumeration)"

text \<open>
  The end-to-end scenario of the specification: a partnership with a turnover of
  12,000,000, registered for GST, with the figures of the previous year.
\<close>

definition exampleForm :: form where
  "exampleForm =
     \<lparr> form_clientName = ''Acme Traders'', form_entityType = ''partnership'',
       form_businessNature = ''Trading'', form_financialYear = ''2024-25'',
       form_turnover = Fin 12000000, form_gstStatus = ''registered'',
       form_accountingMethod = ''accrual'', form_previousYearAvailable = True,
       form_now = ''2025-04-01T00:00:00.000Z'' \<rparr>"

text \<open>The same form with the turnover field left empty: \<open>parseFloat\<close> gives \<open>NaN\<close>.\<close>

definition emptyTurnoverForm :: form where
  "emptyTurnoverForm = exampleForm \<lparr> form_turnover := NaN \<rparr>"

text \<open>
  Every finite double is an integer of less than 54 bits times a power of two. (The
  bounds on the exponent are not needed where this is used.)
\<close>

definition double53 :: "real \<Rightarrow> bool" where
  "double53 x = (\<exists>m e :: int. \<bar>m\<bar> < 2 ^ 53 \<and> x = of_int m * 2 powr of_int e)"

text \<open>
  The words of the specification, for comparison: the ratio rounded to two decimals. The
  number of hundredths nearest to a magnitude (the larger of two), and the text made of
  the sign, the whole part, the point and the two digits of the hundredths.
\<close>

definition hundredths :: "real \<Rightarrow> nat" where
  "hundredths x = nat \<lfloor>x * 100 + 1 / 2\<rfloor>"

definition twoDecimals :: "real \<Rightarrow> string" where
  "twoDecimals r =
     (if r < 0 then [CHR ''-''] else [])
     @ decimal (hundredths \<bar>r\<bar> div 100) @ [CHR ''.'']
     @ [digit_char (hundredths \<bar>r\<bar> div 10 mod 10), digit_char (hundredths \<bar>r\<bar> mod 10)]"

text \<open>
  A balance sheet that balances, with current assets of 100,000 and no current
  liabilities.
\<close>

definition exampleBalanceSheet :: balanceSheet where
  "exampleBalanceSheet =
     \<lparr> totalAssets = Fin 1000000, totalLiabilities = Fin 600000, equity = Fin 400000,
       negativeAssets = None, currentAssets = Fin 100000, currentLiabilities = Fin 0,
       previousYear = None \<rparr>"

text \<open>The three cash payments of the specification: 5,000, 15,000 and 20,000.\<close>

definition exampleExpenses :: "expense list" where
  "exampleExpenses =
     [ \<lparr> description = ''Office supplies'', amount = Fin 5000, paymentMode = ''cash'' \<rparr>,
       \<lparr> description = ''Repairs'', amount = Fin 15000, paymentMode = ''cash'' \<rparr>,
       \<lparr> description = ''Freight'', amount = Fin 20000, paymentMode = ''cash'' \<rparr> ]"

definition exampleProfitLoss :: profitLoss where
  "exampleProfitLoss =
     \<lparr> revenue = Fin 1000000, directCosts = Fin 600000, grossProfit = Fin 400000,
       operatingExpenses = Fin 100000, otherExpenses = Fin 40000, otherIncome = Fin 0,
       netProfit = Fin 260000, expenses = exampleExpenses \<rparr>"

text \<open>The popup after the example form has been submitted.\<close>

definition exampleEngine :: engine where
  "exampleEngine = handleProfileSubmit exampleForm newEngine"

text \<open>
  Reports generated one after the other: each click is followed by its callback. And a
  history from the installation on: 98 reports one after the other, then two clicks
  before the callback of the first one runs.
\<close>

definition sequentialReports :: "nat \<Rightarrow> event list" where
  "sequentialReports k = concat (replicate k [ClickGenerate, TimerFires ''1/4/2025''])"

definition overlappingReports :: "event list" where
  "overlappingReports =
     [Install, OpenPopup, SubmitProfile exampleForm] @ sequentialReports 98
     @ [ClickGenerate, ClickGenerate, TimerFires ''1/4/2025'', TimerFires ''1/4/2025'']"

section \<open>Properties of the deriver\<close>

lemma js_gt_Fin_exceeds: "js_gt x (Fin t) = exceeds x t"
  by (cases x) (simp_all add: js_gt_def exceeds_def)

lemma startsWith_iff: "startsWith s pat = (\<exists>suf. s = pat @ suf)"
  by (induction s pat rule: startsWith.induct) auto

lemma includes_iff: "includes_str s pat = (\<exists>pre suf. s = pre @ pat @ suf)"
proof (induction s)
  case Nil
  show ?case by (simp add: startsWith_iff)
next
  case (Cons c cs)
  show ?case
  proof
    assume "includes_str (c # cs) pat"
    then consider "startsWith (c # cs) pat" | "includes_str cs pat" by auto
    then show "\<exists>pre suf. c # cs = pre @ pat @ suf"
    proof cases
      case 1
      then obtain suf where "c # cs = pat @ suf" by (auto simp: startsWith_iff)
      then have "c # cs = [] @ pat @ suf" by simp
      then show ?thesis by blast
    next
      case 2
      with Cons obtain pre suf where "cs = pre @ pat @ suf" by auto
      then have "c # cs = (c # pre) @ pat @ suf" by simp
      then show ?thesis by blast
    qed
  next
    assume "\<exists>pre suf. c # cs = pre @ pat @ suf"
    then obtain pre suf where e: "c # cs = pre @ pat @ suf" by auto
    show "includes_str (c # cs) pat"
    proof (cases pre)
      case Nil
      with e have "startsWith (c # cs) pat" by (auto simp: startsWith_iff)
      then show ?thesis by simp
    next
      case (Cons a pre')
      with e have "cs = pre' @ pat @ suf" by simp
      with Cons.IH have "includes_str cs pat" by auto
      then show ?thesis by simp
    qed
  qed
qed

lemma includes_toLowerCase: "includes_str (toLowerCase s) kw = contains_ci s kw"
  by (simp add: includes_iff contains_ci_def)

lemma js_gt_opt_Fin:
  "js_gt_opt c (Fin t) = (case c of None \<Rightarrow> False | Some x \<Rightarrow> exceeds x t)"
  by (simp add: js_gt_opt_def js_gt_Fin_exceeds exceeds_def split: option.split)

lemma entityType_formData: "entityType (formData f) = form_entityType f"
  by (simp add: formData_def)

lemma turnover_formData: "turnover (formData f) = form_turnover f"
  by (simp add: formData_def)

lemma contribution_formData: "contribution (formData f) = None"
  by (simp add: formData_def)

lemma businessNature_formData: "businessNature (formData f) = Some (form_businessNature f)"
  by (simp add: formData_def)

text \<open>
  C1. Audit applicability is decided by the first rule that matches, in this order: a
  private or public company is always subject to audit, whatever the turnover; an LLP
  exactly when the turnover is strictly above 4,000,000 or the capital contribution is
  strictly above 2,500,000; a partnership exactly when the turnover is strictly above
  10,000,000; every other entity, its nature of business being a text, exactly when the
  turnover is strictly above 5,000,000 if that text contains "profession" in any case,
  and strictly above 10,000,000 otherwise.
\<close>

theorem isAuditApplicable_first_match:
  "(entityType p = ''private'' \<or> entityType p = ''public'' \<longrightarrow> isAuditApplicable p = Inr True)
   \<and> (entityType p = ''llp'' \<longrightarrow>
        isAuditApplicable p =
          Inr (exceeds (turnover p) 4000000
               \<or> (case contribution p of None \<Rightarrow> False | Some c \<Rightarrow> exceeds c 2500000)))
   \<and> (entityType p = ''partnership'' \<longrightarrow>
        isAuditApplicable p = Inr (exceeds (turnover p) 10000000))
   \<and> (entityType p \<notin> {''private'', ''public'', ''llp'', ''partnership''}
        \<and> businessNature p = Some text \<longrightarrow>
        isAuditApplicable p =
          Inr (if contains_ci text ''profession''
               then exceeds (turnover p) 5000000 else exceeds (turnover p) 10000000))"
proof (intro conjI impI)
  assume "entityType p = ''private'' \<or> entityType p = ''public''"
  then show "isAuditApplicable p = Inr True"
    by (auto simp add: isAuditApplicable_def)
next
  assume "entityType p = ''llp''"
  then show "isAuditApplicable p =
      Inr (exceeds (turnover p) 4000000
           \<or> (case contribution p of None \<Rightarrow> False | Some c \<Rightarrow> exceeds c 2500000))"
    by (simp add: isAuditApplicable_def js_gt_Fin_exceeds js_gt_opt_Fin)
next
  assume "entityType p = ''partnership''"
  then show "isAuditApplicable p = Inr (exceeds (turnover p) 10000000)"
    by (simp add: isAuditApplicable_def js_gt_Fin_exceeds)
next
  assume a: "entityType p \<notin> {''private'', ''public'', ''llp'', ''partnership''}
        \<and> businessNature p = Some text"
  then have other: "entityType p \<noteq> ''private''" "entityType p \<noteq> ''public''"
    "entityType p \<noteq> ''llp''" "entityType p \<noteq> ''partnership''"
    by auto
  from a have nature: "businessNature p = Some text" by simp
  show "isAuditApplicable p =
      Inr (if contains_ci text ''profession''
           then exceeds (turnover p) 5000000 else exceeds (turnover p) 10000000)"
  proof (cases "contains_ci text ''profession''")
    case True
    then have "includes_str (toLowerCase text) ''profession''"
      by (simp only: includes_toLowerCase)
    with other nature True show ?thesis
      by (simp add: isAuditApplicable_def js_gt_Fin_exceeds)
  next
    case False
    then have "\<not> includes_str (toLowerCase text) ''profession''"
      by (simp only: includes_toLowerCase not_False_eq_True)
    with other nature False show ?thesis
      by (simp add: isAuditApplicable_def js_gt_Fin_exceeds)
  qed
qed

text \<open>
  The four rules at concrete profiles: a private company with turnover 0; an LLP with
  turnover exactly 4,000,000 and no contribution; the partnership of the example; an
  individual in a "Legal PROFESSION" with turnover 6,000,000.
\<close>

theorem isAuditApplicable_first_match_witness:
  "isAuditApplicable
     (formData (exampleForm \<lparr> form_entityType := ''private'', form_turnover := Fin 0 \<rparr>))
     = Inr True
   \<and> isAuditApplicable
     (formData (exampleForm \<lparr> form_entityType := ''llp'', form_turnover := Fin 4000000 \<rparr>))
     = Inr False
   \<and> isAuditApplicable (formData exampleForm) = Inr True
   \<and> isAuditApplicable
     (formData (exampleForm \<lparr> form_entityType := ''individual'',
        form_businessNature := ''Legal PROFESSION'', form_turnover := Fin 6000000 \<rparr>))
     = Inr True"
proof -
  let ?a = "formData (exampleForm \<lparr> form_entityType := ''private'', form_turnover := Fin 0 \<rparr>)"
  let ?b = "formData (exampleForm \<lparr> form_entityType := ''llp'', form_turnover := Fin 4000000 \<rparr>)"
  let ?d = "formData (exampleForm \<lparr> form_entityType := ''individual'',
        form_businessNature := ''Legal PROFESSION'', form_turnover := Fin 6000000 \<rparr>)"
  have a: "isAuditApplicable ?a = Inr True"
    using isAuditApplicable_first_match [of ?a] by (simp add: entityType_formData)
  have b: "isAuditApplicable ?b = Inr False"
    using isAuditApplicable_first_match [of ?b]
    by (simp add: entityType_formData turnover_formData contribution_formData exceeds_def)
  have c: "isAuditApplicable (formData exampleForm) = Inr True"
    using isAuditApplicable_first_match [of "formData exampleForm"]
    by (simp add: entityType_formData turnover_formData exampleForm_def exceeds_def)
  have "includes_str (toLowerCase ''Legal PROFESSION'') ''profession''"
    by code_simp
  then have "contains_ci ''Legal PROFESSION'' ''profession''"
    by (simp only: includes_toLowerCase)
  then have d: "isAuditApplicable ?d = Inr True"
    using isAuditApplicable_first_match [of ?d "''Legal PROFESSION''"]
    by (simp add: entityType_formData turnover_formData businessNature_formData exceeds_def)
  from a b c d show ?thesis by blast
qed

text \<open>
  The form always gives a nature of business that is a text, so the analysis of a
  submitted form returns: the form data with the three derived properties.
\<close>

lemma isAuditApplicable_returns:
  "businessNature p \<noteq> None \<or> entityType p \<in> {''private'', ''public'', ''llp'', ''partnership''}
   \<Longrightarrow> \<exists>b. isAuditApplicable p = Inr b"
  by (cases "businessNature p") (auto simp add: isAuditApplicable_def)

lemma analyzeClientProfile_returns:
  "isAuditApplicable fd = Inr b \<Longrightarrow>
   analyzeClientProfile fd =
     Inr (fd \<lparr> auditApplicable := Some b,
              requiredDocuments := Some (determineRequiredDocuments fd),
              complianceRequirements := Some (determineCompliance fd) \<rparr>)"
  by (simp add: analyzeClientProfile_def)

lemma analyzeClientProfile_formData:
  "\<exists>b. isAuditApplicable (formData f) = Inr b
     \<and> analyzeClientProfile (formData f) =
         Inr ((formData f) \<lparr> auditApplicable := Some b,
                requiredDocuments := Some (determineRequiredDocuments (formData f)),
                complianceRequirements := Some (determineCompliance (formData f)) \<rparr>)"
proof -
  have "businessNature (formData f) \<noteq> None" by (simp add: businessNature_formData)
  then obtain b where "isAuditApplicable (formData f) = Inr b"
    using isAuditApplicable_returns [of "formData f"] by blast
  then show ?thesis by (auto simp add: analyzeClientProfile_returns)
qed

text \<open>
  C10. A profile that comes from the submission of the form carries no capital
  contribution, so the comparison of the contribution with 2,500,000 is false and the
  audit applicability of an LLP is decided by the turnover alone: strictly above
  4,000,000.
\<close>

theorem handleProfileSubmit_llp_turnover_alone:
  "(\<exists>p. analyzeClientProfile (formData f) = Inr p
        \<and> clientProfile (handleProfileSubmit f e) = Some p
        \<and> contribution p = None
        \<and> (form_entityType f = ''llp'' \<longrightarrow>
             auditApplicable p = Some (exceeds (form_turnover f) 4000000)))
   \<and> \<not> js_gt_opt (contribution (formData f)) (Fin 2500000)"
proof -
  obtain b where b: "isAuditApplicable (formData f) = Inr b"
    and p: "analyzeClientProfile (formData f) =
         Inr ((formData f) \<lparr> auditApplicable := Some b,
                requiredDocuments := Some (determineRequiredDocuments (formData f)),
                complianceRequirements := Some (determineCompliance (formData f)) \<rparr>)"
    using analyzeClientProfile_formData [of f] by blast
  have "form_entityType f = ''llp'' \<longrightarrow> b = exceeds (form_turnover f) 4000000"
    using b
    by (auto simp add: isAuditApplicable_def entityType_formData turnover_formData
          contribution_formData js_gt_opt_Fin js_gt_Fin_exceeds)
  then show ?thesis
    by (simp add: p handleProfileSubmit_def contribution_formData js_gt_opt_Fin)
qed

theorem handleProfileSubmit_llp_turnover_alone_witness:
  "map_sum id auditApplicable (analyzeClientProfile (formData
      (exampleForm \<lparr> form_entityType := ''llp'', form_turnover := Fin 4000001 \<rparr>)))
     = Inr (Some True)
   \<and> map_sum id auditApplicable (analyzeClientProfile (formData
      (exampleForm \<lparr> form_entityType := ''llp'', form_turnover := Fin 4000000 \<rparr>)))
     = Inr (Some False)"
  using handleProfileSubmit_llp_turnover_alone
          [of "exampleForm \<lparr> form_entityType := ''llp'', form_turnover := Fin 4000001 \<rparr>" newEngine]
        handleProfileSubmit_llp_turnover_alone
          [of "exampleForm \<lparr> form_entityType := ''llp'', form_turnover := Fin 4000000 \<rparr>" newEngine]
  by (auto simp add: exceeds_def)

section \<open>The derived documents and compliance flags\<close>

text \<open>
  What \<open>determineRequiredDocuments\<close> appends, in its order, for the object it is given.
\<close>

lemma determineRequiredDocuments_conditional:
  "conditional (determineRequiredDocuments p) =
     (if gstStatus p = ''registered'' then [gstReturns_doc] else [])
     @ (if exceeds (turnover p) 5000000 then [bankStatements_doc] else [])
     @ (if previousYearAvailable p then [previousYear_doc] else [])
     @ (if auditApplicable p = Some True then [auditReport_doc] else [])"
  by (cases "auditApplicable p")
     (simp_all add: determineRequiredDocuments_def Let_def push_if_def truthy_def
        js_gt_Fin_exceeds)

text \<open>
  What the profile of a submitted form holds: the object given to the two helpers is the
  form data, which has no \<open>auditApplicable\<close>, so the audit report is never among the
  conditional documents and the flag \<open>audit\<close> is \<open>undefined\<close>.
\<close>

lemma analyzeClientProfile_requiredDocuments:
  "map_sum id requiredDocuments (analyzeClientProfile (formData f)) =
     Inr (Some \<lparr> mandatory = [''balanceSheet'', ''profitLoss'', ''trialBalance''],
            conditional =
              (if form_gstStatus f = ''registered'' then [gstReturns_doc] else [])
              @ (if exceeds (form_turnover f) 5000000 then [bankStatements_doc] else [])
              @ (if form_previousYearAvailable f then [previousYear_doc] else []) \<rparr>)"
proof -
  obtain b where "analyzeClientProfile (formData f) =
         Inr ((formData f) \<lparr> auditApplicable := Some b,
                requiredDocuments := Some (determineRequiredDocuments (formData f)),
                complianceRequirements := Some (determineCompliance (formData f)) \<rparr>)"
    using analyzeClientProfile_formData [of f] by blast
  then show ?thesis
    by (simp add: determineRequiredDocuments_def Let_def formData_def
        push_if_def truthy_def js_gt_Fin_exceeds)
qed

lemma analyzeClientProfile_complianceRequirements:
  "map_sum id complianceRequirements (analyzeClientProfile (formData f)) =
     Inr (Some \<lparr> gst = (form_gstStatus f = ''registered''), incomeTax = True,
            tds = exceeds (form_turnover f) 10000000, audit = None,
            mca = (form_entityType f = ''private'' \<or> form_entityType f = ''public''
                   \<or> form_entityType f = ''llp'') \<rparr>)"
proof -
  obtain b where "analyzeClientProfile (formData f) =
         Inr ((formData f) \<lparr> auditApplicable := Some b,
                requiredDocuments := Some (determineRequiredDocuments (formData f)),
                complianceRequirements := Some (determineCompliance (formData f)) \<rparr>)"
    using analyzeClientProfile_formData [of f] by blast
  then show ?thesis
    by (simp add: determineCompliance_def formData_def js_gt_Fin_exceeds)
qed

lemma exampleForm_auditApplicable:
  "map_sum id auditApplicable (analyzeClientProfile (formData exampleForm)) = Inr (Some True)"
  by (simp add: analyzeClientProfile_def isAuditApplicable_def formData_def exampleForm_def
        js_gt_Fin_exceeds exceeds_def)

text \<open>
  C2. The required documents are the mandatory triple and, in this order, the GST returns
  iff registered, the bank statements iff the turnover is above 5,000,000, the financials
  of the previous year iff available, and the audit report iff audit is applicable. On
  the example (a partnership with turnover 12,000,000, for which audit is applicable) the
  derived profile has the first three conditional documents and no audit report.
\<close>

theorem analyzeClientProfile_omits_auditReport:
  "map_sum id auditApplicable (analyzeClientProfile (formData exampleForm)) = Inr (Some True)
   \<and> map_sum id requiredDocuments (analyzeClientProfile (formData exampleForm)) =
       Inr (Some \<lparr> mandatory = [''balanceSheet'', ''profitLoss'', ''trialBalance''],
              conditional = [gstReturns_doc, bankStatements_doc, previousYear_doc] \<rparr>)"
proof -
  have "map_sum id requiredDocuments (analyzeClientProfile (formData exampleForm)) =
       Inr (Some \<lparr> mandatory = [''balanceSheet'', ''profitLoss'', ''trialBalance''],
              conditional = [gstReturns_doc, bankStatements_doc, previousYear_doc] \<rparr>)"
    using analyzeClientProfile_requiredDocuments [of exampleForm]
    by (simp add: exampleForm_def exceeds_def)
  with exampleForm_auditApplicable show ?thesis by simp
qed

text \<open>
  C3. The compliance flags: \<open>incomeTax\<close> is true, \<open>gst\<close> iff registered, \<open>tds\<close> iff the
  turnover is above 10,000,000, \<open>mca\<close> iff the entity is a company or an LLP, and \<open>audit\<close>
  equals the audit applicability. On the example, for which audit is applicable, the
  flag \<open>audit\<close> of the derived profile is \<open>undefined\<close>.
\<close>

theorem analyzeClientProfile_audit_flag_undefined:
  "map_sum id auditApplicable (analyzeClientProfile (formData exampleForm)) = Inr (Some True)
   \<and> map_sum id complianceRequirements (analyzeClientProfile (formData exampleForm)) =
       Inr (Some \<lparr> gst = True, incomeTax = True, tds = True, audit = None, mca = False \<rparr>)"
proof -
  have "map_sum id complianceRequirements (analyzeClientProfile (formData exampleForm)) =
       Inr (Some \<lparr> gst = True, incomeTax = True, tds = True, audit = None, mca = False \<rparr>)"
    using analyzeClientProfile_complianceRequirements [of exampleForm]
    by (simp add: exampleForm_def exceeds_def)
  with exampleForm_auditApplicable show ?thesis by simp
qed

section \<open>Malformed profiles\<close>

text \<open>
  C4, as the specification states it: the analysis fails exactly on a malformed profile.
  The form with the empty turnover field gives a profile that is not well-formed, and
  the analysis returns: audit is found not applicable.
\<close>

theorem analyzeClientProfile_accepts_NaN_turnover:
  "\<not> wellFormed (formData emptyTurnoverForm)
   \<and> \<not> isl (analyzeClientProfile (formData emptyTurnoverForm))
   \<and> map_sum id auditApplicable (analyzeClientProfile (formData emptyTurnoverForm))
       = Inr (Some False)"
  by (simp add: wellFormed_def finiteNonNegative_def emptyTurnoverForm_def
        exampleForm_def formData_def analyzeClientProfile_def isAuditApplicable_def js_gt_def)

text \<open>
  The one exception of the analysis has nothing to do with validity: a profile with no
  text as its nature of business, when none of the first three rules applies, ends the
  call of \<open>toLowerCase\<close> with a \<open>TypeError\<close>, whatever its turnover.
\<close>

lemma analyzeClientProfile_TypeError:
  "businessNature fd = None \<Longrightarrow>
   entityType fd \<notin> {''private'', ''public'', ''llp'', ''partnership''} \<Longrightarrow>
   analyzeClientProfile fd = Inl TypeError"
  by (simp add: analyzeClientProfile_def isAuditApplicable_def)

lemma exceeds_malformed:
  "\<not> finiteNonNegative x \<Longrightarrow> 0 \<le> t \<Longrightarrow> exceeds x t = (x = PosInf)"
  by (cases x) (simp_all add: finiteNonNegative_def exceeds_def)

text \<open>
  C4, amended: the analysis validates nothing. It returns a derived profile for every
  profile whose nature of business is a text, whatever the turnover and the entity
  type, and for every private or public company, LLP and partnership. A turnover that
  is not a finite non-negative number is compared with the thresholds as it is: \<open>NaN\<close>,
  a negative number and minus infinity exceed no threshold, so audit is applicable for
  a company, and for an LLP by its contribution, and for nothing else; plus infinity
  exceeds every threshold, so audit is applicable. An entity type outside the
  enumeration is decided by the last rule, as an individual is.
\<close>

theorem analyzeClientProfile_validates_nothing:
  "(businessNature fd \<noteq> None
      \<or> entityType fd \<in> {''private'', ''public'', ''llp'', ''partnership''} \<longrightarrow>
        \<not> isl (analyzeClientProfile fd)
        \<and> map_sum id (\<lambda>p. p \<lparr> auditApplicable := None, requiredDocuments := None,
                               complianceRequirements := None \<rparr>) (analyzeClientProfile fd)
            = Inr (fd \<lparr> auditApplicable := None, requiredDocuments := None,
                        complianceRequirements := None \<rparr>))
   \<and> (\<not> finiteNonNegative (turnover fd)
      \<and> (businessNature fd \<noteq> None
          \<or> entityType fd \<in> {''private'', ''public'', ''llp'', ''partnership''}) \<longrightarrow>
        map_sum id auditApplicable (analyzeClientProfile fd)
          = Inr (Some (turnover fd = PosInf
                       \<or> entityType fd = ''private'' \<or> entityType fd = ''public''
                       \<or> (entityType fd = ''llp''
                           \<and> js_gt_opt (contribution fd) (Fin 2500000)))))
   \<and> (entityType fd \<notin> set entityTypeEnumeration \<and> businessNature fd = Some text \<longrightarrow>
        map_sum id auditApplicable (analyzeClientProfile fd)
          = Inr (Some (if contains_ci text ''profession''
                       then exceeds (turnover fd) 5000000
                       else exceeds (turnover fd) 10000000)))"
proof (intro conjI impI)
  assume a: "businessNature fd \<noteq> None
      \<or> entityType fd \<in> {''private'', ''public'', ''llp'', ''partnership''}"
  then obtain b where "isAuditApplicable fd = Inr b"
    using isAuditApplicable_returns [of fd] by blast
  then have r: "analyzeClientProfile fd =
     Inr (fd \<lparr> auditApplicable := Some b,
              requiredDocuments := Some (determineRequiredDocuments fd),
              complianceRequirements := Some (determineCompliance fd) \<rparr>)"
    by (rule analyzeClientProfile_returns)
  show "\<not> isl (analyzeClientProfile fd)" by (simp add: r)
  show "map_sum id (\<lambda>p. p \<lparr> auditApplicable := None, requiredDocuments := None,
                               complianceRequirements := None \<rparr>) (analyzeClientProfile fd)
            = Inr (fd \<lparr> auditApplicable := None, requiredDocuments := None,
                        complianceRequirements := None \<rparr>)"
    by (simp add: r)
next
  assume a: "\<not> finiteNonNegative (turnover fd)
      \<and> (businessNature fd \<noteq> None
          \<or> entityType fd \<in> {''private'', ''public'', ''llp'', ''partnership''})"
  then have m: "\<And>t. 0 \<le> t \<Longrightarrow> exceeds (turnover fd) t = (turnover fd = PosInf)"
    by (simp add: exceeds_malformed)
  from a have "businessNature fd \<noteq> None
          \<or> entityType fd \<in> {''private'', ''public'', ''llp'', ''partnership''}" by simp
  then show "map_sum id auditApplicable (analyzeClientProfile fd)
          = Inr (Some (turnover fd = PosInf
                       \<or> entityType fd = ''private'' \<or> entityType fd = ''public''
                       \<or> (entityType fd = ''llp''
                           \<and> js_gt_opt (contribution fd) (Fin 2500000))))"
    by (cases "businessNature fd")
       (auto simp add: analyzeClientProfile_def isAuditApplicable_def js_gt_Fin_exceeds m)
next
  assume a: "entityType fd \<notin> set entityTypeEnumeration \<and> businessNature fd = Some text"
  then have "entityType fd \<notin> {''private'', ''public'', ''llp'', ''partnership''}"
    by (auto simp add: entityTypeEnumeration_def)
  with a show "map_sum id auditApplicable (analyzeClientProfile fd)
          = Inr (Some (if contains_ci text ''profession''
                       then exceeds (turnover fd) 5000000
                       else exceeds (turnover fd) 10000000))"
    by (simp add: analyzeClientProfile_def isAuditApplicable_def includes_toLowerCase
          js_gt_Fin_exceeds)
qed

text \<open>
  The form with the empty turnover field: the analysis returns, audit is found not
  applicable. The example as a trust, an entity type outside the enumeration: audit is
  applicable, by the threshold of 10,000,000.
\<close>

theorem analyzeClientProfile_validates_nothing_witness:
  "\<not> isl (analyzeClientProfile (formData emptyTurnoverForm))
   \<and> map_sum id auditApplicable (analyzeClientProfile (formData emptyTurnoverForm))
       = Inr (Some False)
   \<and> map_sum id auditApplicable (analyzeClientProfile
        (formData (exampleForm \<lparr> form_entityType := ''trust'' \<rparr>))) = Inr (Some True)"
proof -
  let ?n = "formData emptyTurnoverForm"
  let ?t = "formData (exampleForm \<lparr> form_entityType := ''trust'' \<rparr>)"
  have n: "\<not> finiteNonNegative (turnover ?n)" "businessNature ?n \<noteq> None"
    "entityType ?n = ''partnership''" "turnover ?n \<noteq> PosInf"
    by (simp_all add: emptyTurnoverForm_def exampleForm_def formData_def finiteNonNegative_def)
  have 1: "\<not> isl (analyzeClientProfile ?n)"
    using analyzeClientProfile_validates_nothing [of ?n] n by blast
  have "map_sum id auditApplicable (analyzeClientProfile ?n)
      = Inr (Some (turnover ?n = PosInf
                       \<or> entityType ?n = ''private'' \<or> entityType ?n = ''public''
                       \<or> (entityType ?n = ''llp''
                           \<and> js_gt_opt (contribution ?n) (Fin 2500000))))"
    using analyzeClientProfile_validates_nothing [of ?n] n by blast
  then have 2: "map_sum id auditApplicable (analyzeClientProfile ?n) = Inr (Some False)"
    using n by simp
  have t: "entityType ?t \<notin> set entityTypeEnumeration" "businessNature ?t = Some ''Trading''"
    "turnover ?t = Fin 12000000"
    by (simp_all add: exampleForm_def formData_def entityTypeEnumeration_def)
  have "\<not> includes_str (toLowerCase ''Trading'') ''profession''"
    by code_simp
  then have c: "\<not> contains_ci ''Trading'' ''profession''"
    by (simp only: includes_toLowerCase not_False_eq_True)
  have "map_sum id auditApplicable (analyzeClientProfile ?t)
          = Inr (Some (if contains_ci ''Trading'' ''profession''
                       then exceeds (turnover ?t) 5000000
                       else exceeds (turnover ?t) 10000000))"
    using analyzeClientProfile_validates_nothing [of ?t "''Trading''"] t by blast
  then have 3: "map_sum id auditApplicable (analyzeClientProfile ?t) = Inr (Some True)"
    using c t by (simp add: exceeds_def)
  from 1 2 3 show ?thesis by simp
qed

section \<open>The cash payments of the profit and loss review\<close>

lemma filter_disallowable: "filter isLargeCashPayments (concat (map disallowable es)) = []"
  by (induction es) (simp_all add: disallowable_def)

lemma largeCash_exceeds: "largeCash e = (paymentMode e = ''cash'' \<and> exceeds (amount e) 10000)"
  by (simp add: largeCash_def js_gt_Fin_exceeds)

text \<open>
  C6. For every list of expenses, the review gives exactly one finding that requires
  clarification about cash payments when at least one item is paid in cash with an
  amount strictly above 10,000, and the finding reports the number of such items; it
  gives none when no item qualifies. No such finding is among the errors or the
  normal findings.
\<close>

theorem validateProfitLoss_cash_finding:
  "filter isLargeCashPayments (warnings (validateProfitLoss d)) =
     (let n = card {i. i < length (expenses d) \<and> paymentMode (expenses d ! i) = ''cash''
                        \<and> exceeds (amount (expenses d ! i)) 10000}
      in if 0 < n then [LargeCashPayments n] else [])
   \<and> filter isLargeCashPayments (errors (validateProfitLoss d)) = []
   \<and> filter isLargeCashPayments (info (validateProfitLoss d)) = []"
proof -
  have n: "length (filter largeCash (expenses d)) =
      card {i. i < length (expenses d) \<and> paymentMode (expenses d ! i) = ''cash''
                        \<and> exceeds (amount (expenses d ! i)) 10000}"
    by (simp add: length_filter_conv_card largeCash_exceeds)
  have "filter isLargeCashPayments (warnings (validateProfitLoss d)) =
      (if 0 < length (filter largeCash (expenses d))
       then [LargeCashPayments (length (filter largeCash (expenses d)))] else [])"
    by (simp add: validateProfitLoss_def Let_def push_if_def filter_disallowable)
  moreover have "filter isLargeCashPayments (errors (validateProfitLoss d)) = []"
    by (simp add: validateProfitLoss_def Let_def push_if_def)
  moreover have "filter isLargeCashPayments (info (validateProfitLoss d)) = []"
    by (simp add: validateProfitLoss_def Let_def)
  ultimately show ?thesis unfolding n [symmetric] Let_def by (simp only: simp_thms)
qed

text \<open>The payments 5,000, 15,000 and 20,000 in cash: one finding, with the count 2.\<close>

theorem validateProfitLoss_cash_finding_witness:
  "filter isLargeCashPayments (warnings (validateProfitLoss exampleProfitLoss)) = [LargeCashPayments 2]"
proof -
  have "length (filter largeCash (expenses exampleProfitLoss)) = 2"
    by (simp add: exampleProfitLoss_def exampleExpenses_def largeCash_def js_gt_def)
  then have "card {i. i < length (expenses exampleProfitLoss) \<and> paymentMode (expenses exampleProfitLoss ! i) = ''cash''
                        \<and> exceeds (amount (expenses exampleProfitLoss ! i)) 10000} = 2"
    by (simp add: length_filter_conv_card largeCash_exceeds)
  with validateProfitLoss_cash_finding [of exampleProfitLoss] show ?thesis by simp
qed

section \<open>Rounding to the nearest double\<close>

text \<open>
  \<open>round_even\<close> is monotone around the integers and stays within one half of its
  argument; a half way case goes to the even neighbour.
\<close>

lemma round_even_lower: "of_int k \<le> m \<Longrightarrow> k \<le> round_even m"
proof -
  assume "of_int k \<le> m"
  then have "k \<le> \<lfloor>m\<rfloor>" by (simp add: le_floor_iff)
  then show ?thesis by (auto simp add: round_even_def Let_def)
qed

lemma round_even_upper: "m \<le> of_int k \<Longrightarrow> round_even m \<le> k"
proof -
  assume a: "m \<le> of_int k"
  show ?thesis
  proof (cases "m = of_int k")
    case True
    then show ?thesis by (simp add: round_even_def)
  next
    case False
    with a have "m < of_int k" by simp
    then have "\<lfloor>m\<rfloor> < k" by (simp add: floor_less_iff)
    then show ?thesis by (auto simp add: round_even_def Let_def)
  qed
qed

lemma round_even_near: "\<bar>of_int (round_even m) - m\<bar> \<le> 1 / 2"
proof -
  have "of_int \<lfloor>m\<rfloor> \<le> m" "m < of_int \<lfloor>m\<rfloor> + 1" by linarith+
  then show ?thesis by (auto simp add: round_even_def Let_def)
qed

lemma round_even_ge_even:
  assumes "even K"
  shows "K \<le> round_even m \<longleftrightarrow> of_int K - 1 / 2 \<le> m"
proof
  assume "K \<le> round_even m"
  then have "of_int K \<le> (of_int (round_even m) :: real)" by simp
  with round_even_near [of m] show "of_int K - 1 / 2 \<le> m" by linarith
next
  assume a: "of_int K - 1 / 2 \<le> m"
  show "K \<le> round_even m"
  proof (cases "of_int K \<le> m")
    case True
    then show ?thesis by (rule round_even_lower)
  next
    case False
    then have lt: "m < of_int K" by simp
    from a have "of_int (K - 1) \<le> m" by simp
    then have "K - 1 \<le> \<lfloor>m\<rfloor>" by (simp only: le_floor_iff)
    moreover from lt have "\<lfloor>m\<rfloor> < K" by (simp add: floor_less_iff)
    ultimately have f: "\<lfloor>m\<rfloor> = K - 1" by simp
    from assms have "odd (K - 1)" by simp
    with a f show ?thesis by (auto simp add: round_even_def Let_def)
  qed
qed

text \<open>The binade of a nonzero real.\<close>

lemma exponent_bounds:
  assumes "x \<noteq> 0"
  shows "2 powr of_int \<lfloor>log 2 \<bar>x\<bar>\<rfloor> \<le> \<bar>x\<bar>" "\<bar>x\<bar> < 2 powr of_int (\<lfloor>log 2 \<bar>x\<bar>\<rfloor> + 1)"
proof -
  have "0 < \<bar>x\<bar>" using assms by simp
  then have "2 powr of_int \<lfloor>log 2 \<bar>x\<bar>\<rfloor> \<le> \<bar>x\<bar> \<and> \<bar>x\<bar> < 2 powr of_int (\<lfloor>log 2 \<bar>x\<bar>\<rfloor> + 1)"
    using floor_log_eq_powr_iff [of "\<bar>x\<bar>" 2 "\<lfloor>log 2 \<bar>x\<bar>\<rfloor>"] by simp
  then show "2 powr of_int \<lfloor>log 2 \<bar>x\<bar>\<rfloor> \<le> \<bar>x\<bar>" "\<bar>x\<bar> < 2 powr of_int (\<lfloor>log 2 \<bar>x\<bar>\<rfloor> + 1)"
    by simp_all
qed


text \<open>
  The doubles next to 1 are \<open>1 - 1 / 2 ^ 53\<close> and 1 itself, and 1 is the even one: a real
  rounds to a double below 1 exactly when it is below their midpoint.
\<close>

lemma toDouble_lt_1: "js_lt (toDouble q) (Fin 1) \<longleftrightarrow> q < 1 - 1 / 2 ^ 54"
proof (cases "q = 0")
  case True
  then show ?thesis by (simp add: toDouble_def)
next
  case False
  define e where "e = exponent q"
  define Q :: real where "Q = 2 powr of_int (e - 52)"
  define n where "n = round_even (\<bar>q\<bar> / Q)"
  define v :: real where "v = of_int n * Q"
  have Q: "0 < Q" by (simp add: Q_def)
  have "of_int 0 \<le> \<bar>q\<bar> / Q" using Q by simp
  then have n0: "0 \<le> n" unfolding n_def by (rule round_even_lower)
  then have v0: "0 \<le> v" using Q by (simp add: v_def)
  have td: "toDouble q =
     (if 2 ^ 1024 \<le> v then signed_inf (q < 0)
      else if n = 0 then signed_zero (q < 0)
      else Fin (if q < 0 then - v else v))"
    using False by (simp only: toDouble_def Let_def v_def n_def Q_def e_def if_False)
  show ?thesis
  proof (cases "q < 0")
    case True
    then have "q < 1 - 1 / 2 ^ 54" by simp
    moreover have "js_lt (toDouble q) (Fin 1)"
      using True v0 by (simp add: td signed_inf_def signed_zero_def)
    ultimately show ?thesis by simp
  next
    case False
    with \<open>q \<noteq> 0\<close> have pos: "0 < q" by simp
    then have aq: "\<bar>q\<bar> = q" by simp
    note b = exponent_bounds [OF \<open>q \<noteq> 0\<close>, unfolded aq]
    show ?thesis
    proof (cases "1 \<le> q")
      case True
      then have "0 \<le> log 2 q" using pos by simp
      then have "0 \<le> \<lfloor>log 2 q\<rfloor>" by simp
      then have e: "e = \<lfloor>log 2 q\<rfloor>" "0 \<le> e" by (simp_all add: e_def exponent_def aq)
      have "2 powr of_int e \<le> q" using b(1) e by simp
      then have "2 powr of_int e / Q \<le> q / Q" using Q by (simp add: divide_right_mono)
      moreover have "2 powr of_int e / Q = 2 ^ 52"
        by (simp add: Q_def powr_diff [symmetric])
      ultimately have "of_int (2 ^ 52) \<le> \<bar>q\<bar> / Q" by (simp add: aq)
      then have n: "2 ^ 52 \<le> n" unfolding n_def by (rule round_even_lower)
      then have "(2 ^ 52 :: real) \<le> of_int n"
        using of_int_le_iff [of "2 ^ 52" n, where ?'a = real] by simp
      then have "2 ^ 52 * Q \<le> v" using Q by (simp add: v_def)
      moreover have "2 ^ 52 * Q = 2 powr of_int e"
        by (simp add: Q_def powr_diff)
      moreover have "2 powr 0 \<le> (2::real) powr of_int e" using e(2) by (simp del: powr_zero_eq_one)
      ultimately have "1 \<le> v" by simp
      with n have "\<not> js_lt (toDouble q) (Fin 1)"
        using False by (auto simp add: td signed_inf_def)
      moreover have "\<not> q < 1 - 1 / 2 ^ 54" using True by simp
      ultimately show ?thesis by simp
    next
      case False
      then have q1: "q < 1" by simp
      then have "log 2 q < 0" using pos by simp
      then have e0: "\<lfloor>log 2 q\<rfloor> \<le> - 1" by linarith
      then have e: "e \<le> - 1" "\<lfloor>log 2 q\<rfloor> \<le> e" by (simp_all add: e_def exponent_def aq)
      have "2 powr of_int (\<lfloor>log 2 q\<rfloor> + 1) \<le> (2::real) powr of_int (e + 1)"
        using e(2) by simp
      with b(2) have qe: "q < 2 powr of_int (e + 1)" by linarith
      then have "q / Q < 2 powr of_int (e + 1) / Q" using Q by (simp add: divide_strict_right_mono)
      moreover have "2 powr of_int (e + 1) / Q = 2 ^ 53"
        by (simp add: Q_def powr_diff [symmetric])
      ultimately have "\<bar>q\<bar> / Q \<le> of_int (2 ^ 53)" by (simp add: aq)
      then have n: "n \<le> 2 ^ 53" unfolding n_def by (rule round_even_upper)
      then have "of_int n \<le> (2 ^ 53 :: real)"
        using of_int_le_iff [of n "2 ^ 53", where ?'a = real] by simp
      then have "v \<le> 2 ^ 53 * Q" using Q by (simp add: v_def)
      moreover have Qe: "2 ^ 53 * Q = 2 powr of_int (e + 1)"
        by (simp add: Q_def powr_diff powr_add)
      ultimately have ve: "v \<le> 2 powr of_int (e + 1)" by simp
      have "(2::real) powr of_int (e + 1) \<le> 2 powr 0" using e(1) by (simp del: powr_zero_eq_one)
      then have e1: "(2::real) powr of_int (e + 1) \<le> 1" by simp
      with ve have v1: "v \<le> 1" by simp
      moreover have "(1::real) < 2 ^ 1024" by (rule one_less_power) simp_all
      ultimately have "\<not> 2 ^ 1024 \<le> v" by linarith
      then have lt: "js_lt (toDouble q) (Fin 1) \<longleftrightarrow> v < 1"
        using \<open>\<not> q < 0\<close> by (simp add: td signed_zero_def v_def)
      show ?thesis
      proof (cases "e = - 1")
        case True
        then have Qv: "Q = 1 / 2 ^ 53" by (simp add: Q_def powr_neg_numeral)
        have "v < 1 \<longleftrightarrow> of_int n < (2 ^ 53 :: real)" by (simp add: v_def Qv)
        also have "\<dots> \<longleftrightarrow> \<not> 2 ^ 53 \<le> n"
          using of_int_less_iff [of n "2 ^ 53", where ?'a = real] by (simp add: not_le)
        also have "\<dots> \<longleftrightarrow> \<not> of_int (2 ^ 53) - 1 / 2 \<le> \<bar>q\<bar> / Q"
          unfolding n_def by (subst round_even_ge_even) simp_all
        also have "\<dots> \<longleftrightarrow> q < 1 - 1 / 2 ^ 54" by (simp add: aq Qv field_simps not_le)
        finally show ?thesis using lt by simp
      next
        case False
        with e(1) have "e + 1 \<le> - 1" by simp
        then have "real_of_int (e + 1) \<le> - 1"
          using of_int_le_iff [of "e + 1" "- 1", where ?'a = real] by simp
        then have "(2::real) powr of_int (e + 1) \<le> 2 powr (- 1)" by (rule powr_mono) simp
        moreover have "(2::real) powr (- 1) = 1 / 2" by (simp add: powr_neg_one)
        ultimately have h: "(2::real) powr of_int (e + 1) \<le> 1 / 2" by simp
        with ve have "v < 1" by simp
        moreover from qe h have "q < 1 - 1 / 2 ^ 54" by simp
        ultimately show ?thesis using lt by simp
      qed
    qed
  qed
qed


text \<open>
  A quotient of two integers of at most 53 bits that is below 1 is below it by
  \<open>1 / 2 ^ 53\<close> at least; so is, after scaling, a quotient of two doubles.
\<close>

lemma int_quotient_gap:
  fixes A B :: int
  assumes "0 < A" "A < B" "A < 2 ^ 53 \<or> B \<le> 2 ^ 53"
  shows "real_of_int A / real_of_int B \<le> 1 - 1 / 2 ^ 53"
proof -
  have "2 ^ 53 * A \<le> (2 ^ 53 - 1) * B"
  proof (cases "B \<le> 2 ^ 53")
    case True
    with assms(2) show ?thesis by simp
  next
    case False
    with assms(3) have "A \<le> 2 ^ 53 - 1" by simp
    then have "2 ^ 53 * A \<le> 2 ^ 53 * (2 ^ 53 - 1)" by simp
    also have "\<dots> \<le> (2 ^ 53 - 1) * B" using False by simp
    finally show ?thesis .
  qed
  then have "real_of_int (2 ^ 53 * A) \<le> real_of_int ((2 ^ 53 - 1) * B)"
    by (simp only: of_int_le_iff)
  then have "2 ^ 53 * real_of_int A \<le> (2 ^ 53 - 1) * real_of_int B" by simp
  moreover have "0 < real_of_int B" using assms by simp
  ultimately show ?thesis by (simp add: field_simps)
qed

lemma double53_quotient_gap:
  assumes "double53 x" "double53 y" "x / y < 1"
  shows "x / y \<le> 1 - 1 / 2 ^ 53"
proof (cases "x / y \<le> 0")
  case True
  moreover have "(0::real) \<le> 1 - 1 / 2 ^ 53" by simp
  ultimately show ?thesis by linarith
next
  case False
  then have pos: "0 < x / y" by simp
  then have nz: "x \<noteq> 0" "y \<noteq> 0" by auto
  from assms(1) obtain mx ex :: int where x: "\<bar>mx\<bar> < 2 ^ 53" "x = of_int mx * 2 powr of_int ex"
    by (auto simp add: double53_def)
  from assms(2) obtain my ey :: int where y: "\<bar>my\<bar> < 2 ^ 53" "y = of_int my * 2 powr of_int ey"
    by (auto simp add: double53_def)
  from nz x y have m: "0 < \<bar>mx\<bar>" "0 < \<bar>my\<bar>" by auto
  have "x / y = \<bar>x / y\<bar>" using pos by (simp only: abs_of_pos)
  also have "\<dots> = (of_int \<bar>mx\<bar> * 2 powr of_int ex) / (of_int \<bar>my\<bar> * 2 powr of_int ey)"
    by (simp add: x(2) y(2) abs_mult)
  finally have q: "x / y = (of_int \<bar>mx\<bar> * 2 powr of_int ex) / (of_int \<bar>my\<bar> * 2 powr of_int ey)" .
  show ?thesis
  proof (cases "ex \<le> ey")
    case True
    define d where "d = nat (ey - ex)"
    have "real_of_int ey = real_of_int ex + real d" using True by (simp add: d_def)
    then have "2 powr real_of_int ey = 2 powr real_of_int ex * 2 ^ d"
      by (simp add: powr_add powr_realpow)
    then have q': "x / y = real_of_int \<bar>mx\<bar> / real_of_int (\<bar>my\<bar> * 2 ^ d)"
      by (simp add: q)
    with assms(3) m have "real_of_int \<bar>mx\<bar> < real_of_int (\<bar>my\<bar> * 2 ^ d)"
      by (simp add: field_simps)
    then have "\<bar>mx\<bar> < \<bar>my\<bar> * 2 ^ d" by (simp only: of_int_less_iff)
    with m(1) x(1) show ?thesis unfolding q' by (intro int_quotient_gap) simp_all
  next
    case False
    define d where "d = nat (ex - ey)"
    have "real_of_int ex = real_of_int ey + real d" using False by (simp add: d_def)
    then have "2 powr real_of_int ex = 2 powr real_of_int ey * 2 ^ d"
      by (simp add: powr_add powr_realpow)
    then have q': "x / y = real_of_int (\<bar>mx\<bar> * 2 ^ d) / real_of_int \<bar>my\<bar>"
      by (simp add: q)
    with assms(3) m have "real_of_int (\<bar>mx\<bar> * 2 ^ d) < real_of_int \<bar>my\<bar>"
      by (simp add: field_simps)
    then have "\<bar>mx\<bar> * 2 ^ d < \<bar>my\<bar>" by (simp only: of_int_less_iff)
    moreover have "0 < \<bar>mx\<bar> * 2 ^ d" using m(1) by simp
    ultimately show ?thesis using y(1) unfolding q' by (intro int_quotient_gap) simp_all
  qed
qed

text \<open>The roundings of the two quotients of the examples.\<close>

lemma exponent_eq:
  assumes "2 powr of_int k \<le> \<bar>x\<bar>" "\<bar>x\<bar> < 2 powr of_int (k + 1)" "- 1022 \<le> k"
  shows "exponent x = k"
proof -
  have "0 < (2::real) powr of_int k" by simp
  with assms(1) have "0 < \<bar>x\<bar>" by linarith
  then have "\<lfloor>log 2 \<bar>x\<bar>\<rfloor> = k"
    using floor_log_eq_powr_iff [of "\<bar>x\<bar>" 2 k] assms by simp
  with assms(3) show ?thesis by (simp add: exponent_def)
qed

lemma toDouble_half: "toDouble (1 / 2) = Fin (1 / 2)"
proof -
  have "exponent (1 / 2) = - 1"
    by (rule exponent_eq) (simp_all add: powr_neg_one)
  then show ?thesis
    by (simp add: toDouble_def Let_def powr_neg_numeral round_even_def)
qed

lemma toDouble_3_200: "toDouble (3 / 200) = Fin (8646911284551352 / 2 ^ 59)"
proof -
  have "exponent (3 / 200) = - 7"
    by (rule exponent_eq) (simp_all add: powr_neg_numeral)
  then show ?thesis
    by (simp add: toDouble_def Let_def powr_neg_numeral round_even_def)
qed


section \<open>The current ratio of the balance sheet\<close>

lemma decimal_small: "n < 10 \<Longrightarrow> decimal n = [digit_char n]"
  by simp

lemma decimal_step: "10 \<le> n \<Longrightarrow> decimal n = decimal (n div 10) @ [digit_char (n mod 10)]"
  by (subst decimal.simps) simp

lemma decimal_nonempty: "decimal n \<noteq> []"
  by (subst decimal.simps) simp

lemma decimal_two: "10 \<le> n \<Longrightarrow> n < 100 \<Longrightarrow> decimal n = [digit_char (n div 10), digit_char (n mod 10)]"
  by (simp add: decimal_step decimal_small del: decimal.simps)

lemma decimal_large:
  assumes "100 \<le> n"
  shows "decimal n = decimal (n div 100) @ [digit_char (n div 10 mod 10), digit_char (n mod 10)]"
proof -
  have "10 \<le> n div 10" using assms by simp
  then have "decimal (n div 10) = decimal (n div 10 div 10) @ [digit_char (n div 10 mod 10)]"
    by (rule decimal_step)
  moreover have "n div 10 div 10 = n div 100" by (simp add: div_mult2_eq [symmetric])
  moreover have "decimal n = decimal (n div 10) @ [digit_char (n mod 10)]"
    using assms by (intro decimal_step) simp
  ultimately show ?thesis by simp
qed

lemma digit_char_0: "digit_char 0 = CHR ''0''"
  by code_simp

lemma decimal_0: "decimal 0 = [CHR ''0'']"
  by (simp add: digit_char_0)

lemma fixed_digits_2:
  "fixed_digits 2 x =
     decimal (hundredths x div 100) @ [CHR ''.'']
     @ [digit_char (hundredths x div 10 mod 10), digit_char (hundredths x mod 10)]"
proof -
  let ?n = "hundredths x"
  have n: "nat \<lfloor>x * 10 ^ 2 + 1 / 2\<rfloor> = ?n" by (simp add: hundredths_def)
  consider "?n < 10" | "10 \<le> ?n" "?n < 100" | "100 \<le> ?n" by linarith
  then show ?thesis
  proof cases
    case 1
    then have "decimal ?n = [digit_char ?n]" by (rule decimal_small)
    with 1 show ?thesis
      unfolding fixed_digits_def n Let_def
      by (simp add: digit_char_0 decimal_0 numeral_2_eq_2 del: decimal.simps)
  next
    case 2
    then have d: "decimal ?n = [digit_char (?n div 10), digit_char (?n mod 10)]" by (rule decimal_two)
    from 2 have "?n div 100 = 0" "?n div 10 mod 10 = ?n div 10" by simp_all
    with d show ?thesis
      unfolding fixed_digits_def n Let_def
      by (simp add: digit_char_0 decimal_0 del: decimal.simps)
  next
    case 3
    then have d: "decimal ?n = decimal (?n div 100) @ [digit_char (?n div 10 mod 10), digit_char (?n mod 10)]"
      by (rule decimal_large)
    have "decimal (?n div 100) \<noteq> []" by (rule decimal_nonempty)
    then have "0 < length (decimal (?n div 100))" by simp
    then show ?thesis
      unfolding fixed_digits_def n Let_def
      by (simp add: d del: decimal.simps)
  qed
qed

lemma toFixed_2_twoDecimals:
  "\<bar>r\<bar> < 10 ^ 21 \<Longrightarrow> toFixed 2 (Fin r) = Digits (twoDecimals r)"
  by (simp add: toFixed_real_def fixed_digits_2 twoDecimals_def del: decimal.simps)

lemma hundredths_nearest:
  assumes "0 \<le> x"
  shows "\<bar>real (hundredths x) / 100 - x\<bar> \<le> 1 / 200"
proof -
  define k where "k = \<lfloor>x * 100 + 1 / 2\<rfloor>"
  have "0 \<le> k" using assms by (simp add: k_def)
  then have h: "real (hundredths x) = of_int k" by (simp add: hundredths_def k_def)
  have le: "of_int k \<le> x * 100 + 1 / 2" unfolding k_def by (rule of_int_floor_le)
  have lt: "x * 100 + 1 / 2 < of_int k + 1" unfolding k_def by linarith
  have "real_of_int k / 100 - x \<le> 1 / 200" using le by linarith
  moreover have "- (1 / 200) \<le> real_of_int k / 100 - x" using lt by linarith
  ultimately show ?thesis unfolding h by (subst abs_le_iff) (intro conjI; linarith)
qed

text \<open>
  C5, as the specification states it: with current liabilities of zero the ratio is
  treated as undefined and a finding that requires clarification is emitted. With
  current assets of 100,000 and current liabilities of 0 the ratio is plus infinity, it
  is compared with 1, and there is no warning at all.
\<close>

theorem validateBalanceSheet_zero_liabilities_no_finding:
  "currentLiabilities exampleBalanceSheet = Fin 0
   \<and> js_div (currentAssets exampleBalanceSheet) (currentLiabilities exampleBalanceSheet) = PosInf
   \<and> warnings (validateBalanceSheet exampleBalanceSheet) = []"
  by (simp add: exampleBalanceSheet_def validateBalanceSheet_def js_div_def signed_inf_def push_if_def Let_def)

lemma lowRatio_findings:
  "filter isLowCurrentRatio (warnings (validateBalanceSheet d)) =
     (let r = js_div (currentAssets d) (currentLiabilities d)
      in if js_lt r (Fin 1) then [LowCurrentRatio (toFixed 2 r)] else [])"
  by (cases "negativeAssets d") (simp_all add: validateBalanceSheet_def Let_def push_if_def)

lemma js_div_zero:
  "is_zero l \<Longrightarrow>
     js_div a l = (if a = NaN \<or> is_zero a then NaN else signed_inf (negative a \<noteq> negative l))"
  by (cases l; cases a) (auto simp add: js_div_def signed_inf_def)

lemma js_div_finite:
  "y \<noteq> 0 \<Longrightarrow>
     js_div (Fin x) (Fin y) = (if x = 0 then signed_zero (y < 0) else toDouble (x / y))"
  by (simp add: js_div_def)

text \<open>
  The double nearest to a real is within half a spacing of it: within the real divided
  by \<open>2 ^ 53\<close> in the normal range, within \<open>2 powr (- 1075)\<close> below it.
\<close>

lemma toDouble_near:
  assumes "toDouble q = Fin r"
  shows "\<bar>r - q\<bar> \<le> max (\<bar>q\<bar> / 2 ^ 53) (2 powr (- 1075))"
proof (cases "q = 0")
  case True
  with assms show ?thesis by (simp add: toDouble_def)
next
  case False
  define e where "e = exponent q"
  define Q :: real where "Q = 2 powr of_int (e - 52)"
  define n where "n = round_even (\<bar>q\<bar> / Q)"
  define v :: real where "v = of_int n * Q"
  have Q: "0 < Q" by (simp add: Q_def)
  have td: "toDouble q =
     (if 2 ^ 1024 \<le> v then signed_inf (q < 0)
      else if n = 0 then signed_zero (q < 0)
      else Fin (if q < 0 then - v else v))"
    using False by (simp only: toDouble_def Let_def v_def n_def Q_def e_def if_False)
  have r: "r = (if q < 0 then - v else v)"
    using assms unfolding td
    by (auto simp add: signed_inf_def signed_zero_def v_def split: if_splits)
  have "\<bar>of_int n - \<bar>q\<bar> / Q\<bar> \<le> 1 / 2" unfolding n_def by (rule round_even_near)
  then have "\<bar>of_int n - \<bar>q\<bar> / Q\<bar> * Q \<le> 1 / 2 * Q" using Q by (simp only: mult_right_mono less_imp_le)
  moreover have "\<bar>of_int n - \<bar>q\<bar> / Q\<bar> * Q = \<bar>v - \<bar>q\<bar>\<bar>"
  proof -
    have "\<bar>of_int n - \<bar>q\<bar> / Q\<bar> * Q = \<bar>of_int n - \<bar>q\<bar> / Q\<bar> * \<bar>Q\<bar>"
      using Q by (simp only: abs_of_pos)
    also have "\<dots> = \<bar>(of_int n - \<bar>q\<bar> / Q) * Q\<bar>" by (simp only: abs_mult)
    also have "(of_int n - \<bar>q\<bar> / Q) * Q = v - \<bar>q\<bar>"
      using Q by (simp add: v_def left_diff_distrib)
    finally show ?thesis .
  qed
  ultimately have near: "\<bar>v - \<bar>q\<bar>\<bar> \<le> Q / 2" by simp
  have "\<bar>r - q\<bar> = \<bar>v - \<bar>q\<bar>\<bar>" by (cases "q < 0") (simp_all add: r abs_if)
  with near have rq: "\<bar>r - q\<bar> \<le> Q / 2" by simp
  have half: "Q / 2 = 2 powr of_int (e - 53)"
    by (simp add: Q_def powr_diff)
  show ?thesis
  proof (cases "- 1022 \<le> \<lfloor>log 2 \<bar>q\<bar>\<rfloor>")
    case True
    then have "e = \<lfloor>log 2 \<bar>q\<bar>\<rfloor>" by (simp add: e_def exponent_def)
    with exponent_bounds(1) [OF False] have "2 powr of_int e \<le> \<bar>q\<bar>" by simp
    then have "2 powr of_int e / 2 ^ 53 \<le> \<bar>q\<bar> / 2 ^ 53" by (simp add: divide_right_mono)
    moreover have "2 powr of_int e / 2 ^ 53 = Q / 2" by (simp add: Q_def powr_diff)
    ultimately have "Q / 2 \<le> \<bar>q\<bar> / 2 ^ 53" by simp
    with rq have "\<bar>r - q\<bar> \<le> \<bar>q\<bar> / 2 ^ 53" by linarith
    then show ?thesis by (rule max.coboundedI1)
  next
    case False
    then have "e = - 1022" by (simp add: e_def exponent_def)
    then have "Q / 2 = 2 powr (- 1075)" by (simp add: half)
    with rq have "\<bar>r - q\<bar> \<le> 2 powr (- 1075)" by linarith
    then show ?thesis by (rule max.coboundedI2)
  qed
qed

text \<open>
  With finite figures and nonzero liabilities, the finding is there exactly when the
  exact quotient is below \<open>1 - 1 / 2 ^ 54\<close>: a quotient nearer to 1 rounds to 1.
\<close>

lemma lowRatio_finite:
  assumes "currentAssets d = Fin x" "currentLiabilities d = Fin y" "y \<noteq> 0"
  shows "filter isLowCurrentRatio (warnings (validateBalanceSheet d)) =
     (if x / y < 1 - 1 / 2 ^ 54 then [LowCurrentRatio (toFixed 2 (js_div (Fin x) (Fin y)))] else [])"
proof (cases "x = 0")
  case True
  with assms show ?thesis
    by (simp add: lowRatio_findings js_div_finite signed_zero_def Let_def)
next
  case False
  with assms(3) have "js_div (Fin x) (Fin y) = toDouble (x / y)" by (simp add: js_div_finite)
  with assms show ?thesis
    by (simp add: lowRatio_findings Let_def toDouble_lt_1)
qed

text \<open>The quotient of two doubles is never that near to 1.\<close>

lemma double53_below_1:
  assumes "double53 x" "double53 y"
  shows "(x / y < 1 - 1 / 2 ^ 54) = (x / y < 1)"
proof
  assume "x / y < 1 - 1 / 2 ^ 54"
  moreover have "(1::real) - 1 / 2 ^ 54 < 1" by simp
  ultimately show "x / y < 1" by linarith
next
  assume "x / y < 1"
  with assms have "x / y \<le> 1 - 1 / 2 ^ 53" by (rule double53_quotient_gap)
  moreover have "(1::real) - 1 / 2 ^ 53 < 1 - 1 / 2 ^ 54" by simp
  ultimately show "x / y < 1 - 1 / 2 ^ 54" by linarith
qed

text \<open>
  C5, amended. The check raises no error. With current liabilities of zero the ratio is
  an infinity or \<open>NaN\<close>, and the liquidity finding is emitted only when it is minus
  infinity: when the current assets are a nonzero number whose sign differs from the
  sign of the zero (negative assets over \<open>+0\<close>, positive assets over \<open>-0\<close>); its text
  is then \<open>-Infinity\<close>. With current assets and nonzero current liabilities that are
  finite doubles, the finding is emitted iff the quotient is strictly below 1. Its
  text is that of the ratio that the code computes, the double nearest to the
  quotient, rounded to two decimals: when that ratio is a finite \<open>r\<close> of magnitude below
  \<open>10^21\<close>, the text shows the hundredths nearest to the magnitude of \<open>r\<close>.
\<close>

theorem validateBalanceSheet_liquidity_finding:
  "(is_zero (currentLiabilities d) \<longrightarrow>
      filter isLowCurrentRatio (warnings (validateBalanceSheet d)) =
        (if currentAssets d \<noteq> NaN \<and> \<not> is_zero (currentAssets d)
            \<and> negative (currentAssets d) \<noteq> negative (currentLiabilities d)
         then [LowCurrentRatio (Digits ''-Infinity'')] else []))
   \<and> (currentAssets d = Fin x \<and> currentLiabilities d = Fin y \<and> y \<noteq> 0
        \<and> double53 x \<and> double53 y \<longrightarrow>
      filter isLowCurrentRatio (warnings (validateBalanceSheet d)) =
        (if x / y < 1 then [LowCurrentRatio (toFixed 2 (js_div (Fin x) (Fin y)))] else []))
   \<and> (y \<noteq> 0 \<and> js_div (Fin x) (Fin y) = Fin r \<longrightarrow>
        \<bar>r - x / y\<bar> \<le> max (\<bar>x / y\<bar> / 2 ^ 53) (2 powr (- 1075)))
   \<and> (js_div (Fin x) (Fin y) = Fin r \<and> \<bar>r\<bar> < 10 ^ 21 \<longrightarrow>
        toFixed 2 (Fin r) = Digits (twoDecimals r)
        \<and> \<bar>real (hundredths \<bar>r\<bar>) / 100 - \<bar>r\<bar>\<bar> \<le> 1 / 200)"
proof (intro conjI impI)
  assume z: "is_zero (currentLiabilities d)"
  show "filter isLowCurrentRatio (warnings (validateBalanceSheet d)) =
        (if currentAssets d \<noteq> NaN \<and> \<not> is_zero (currentAssets d)
            \<and> negative (currentAssets d) \<noteq> negative (currentLiabilities d)
         then [LowCurrentRatio (Digits ''-Infinity'')] else [])"
    by (simp add: lowRatio_findings js_div_zero [OF z] signed_inf_def Let_def)
next
  assume a: "currentAssets d = Fin x \<and> currentLiabilities d = Fin y \<and> y \<noteq> 0
        \<and> double53 x \<and> double53 y"
  then have "double53 x" "double53 y" by simp_all
  then have "(x / y < 1 - 1 / 2 ^ 54) = (x / y < 1)" by (rule double53_below_1)
  moreover from a have "filter isLowCurrentRatio (warnings (validateBalanceSheet d)) =
     (if x / y < 1 - 1 / 2 ^ 54 then [LowCurrentRatio (toFixed 2 (js_div (Fin x) (Fin y)))] else [])"
    by (intro lowRatio_finite) simp_all
  ultimately show "filter isLowCurrentRatio (warnings (validateBalanceSheet d)) =
        (if x / y < 1 then [LowCurrentRatio (toFixed 2 (js_div (Fin x) (Fin y)))] else [])"
    by simp
next
  assume a: "y \<noteq> 0 \<and> js_div (Fin x) (Fin y) = Fin r"
  show "\<bar>r - x / y\<bar> \<le> max (\<bar>x / y\<bar> / 2 ^ 53) (2 powr (- 1075))"
  proof (cases "x = 0")
    case True
    with a have "r = 0" by (auto simp add: js_div_finite signed_zero_def split: if_splits)
    with True show ?thesis by simp
  next
    case False
    from a have "y \<noteq> 0" and "js_div (Fin x) (Fin y) = Fin r" by simp_all
    moreover from \<open>y \<noteq> 0\<close> False have "js_div (Fin x) (Fin y) = toDouble (x / y)"
      by (simp add: js_div_finite)
    ultimately have "toDouble (x / y) = Fin r" by simp
    then show ?thesis by (rule toDouble_near)
  qed
next
  assume "js_div (Fin x) (Fin y) = Fin r \<and> \<bar>r\<bar> < 10 ^ 21"
  then have "\<bar>r\<bar> < 10 ^ 21" ..
  then show "toFixed 2 (Fin r) = Digits (twoDecimals r)"
    by (rule toFixed_2_twoDecimals)
next
  show "\<bar>real (hundredths \<bar>r\<bar>) / 100 - \<bar>r\<bar>\<bar> \<le> 1 / 200"
    by (rule hundredths_nearest) simp
qed

text \<open>
  Current assets of -5 over no current liabilities: the finding with the text
  \<open>-Infinity\<close>. Current assets of 100,000 over current liabilities of 200,000: the
  ratio is 0.5 and the text \<open>0.50\<close>. Current assets of 3 over current liabilities of
  200: the ratio is the double below 0.015 and the text \<open>0.01\<close>.
\<close>

lemma double53_int: "\<bar>m\<bar> < 2 ^ 53 \<Longrightarrow> double53 (of_int m)"
proof -
  assume "\<bar>m\<bar> < 2 ^ 53"
  moreover have "real_of_int m = of_int m * 2 powr of_int 0" by simp
  ultimately show ?thesis unfolding double53_def by blast
qed

theorem validateBalanceSheet_liquidity_finding_witness:
  "filter isLowCurrentRatio (warnings (validateBalanceSheet
      (exampleBalanceSheet \<lparr> currentAssets := Fin (- 5) \<rparr>)))
     = [LowCurrentRatio (Digits ''-Infinity'')]
   \<and> filter isLowCurrentRatio (warnings (validateBalanceSheet
      (exampleBalanceSheet \<lparr> currentLiabilities := Fin 200000 \<rparr>)))
     = [LowCurrentRatio (Digits ''0.50'')]
   \<and> filter isLowCurrentRatio (warnings (validateBalanceSheet
      (exampleBalanceSheet \<lparr> currentAssets := Fin 3, currentLiabilities := Fin 200 \<rparr>)))
     = [LowCurrentRatio (Digits ''0.01'')]"
proof -
  let ?d1 = "exampleBalanceSheet \<lparr> currentAssets := Fin (- 5) \<rparr>"
  let ?d2 = "exampleBalanceSheet \<lparr> currentLiabilities := Fin 200000 \<rparr>"
  let ?d3 = "exampleBalanceSheet \<lparr> currentAssets := Fin 3, currentLiabilities := Fin 200 \<rparr>"
  let ?r = "1080863910568919 / 72057594037927936 :: real"
  have 1: "filter isLowCurrentRatio (warnings (validateBalanceSheet ?d1))
      = [LowCurrentRatio (Digits ''-Infinity'')]"
    using validateBalanceSheet_liquidity_finding [of ?d1]
    by (simp add: exampleBalanceSheet_def)
  have digits: "decimal 0 = ''0''" "digit_char 5 = CHR ''5''" "digit_char 0 = CHR ''0''"
    "digit_char 1 = CHR ''1''" "digit_char (Suc 0) = CHR ''1''"
    by code_simp+
  have d53: "double53 100000" "double53 200000" "double53 3" "double53 200"
    using double53_int [of 100000] double53_int [of 200000] double53_int [of 3]
      double53_int [of 200]
    by simp_all
  have q2: "js_div (Fin 100000) (Fin 200000) = Fin (1 / 2)"
    by (simp add: js_div_finite toDouble_half)
  have "hundredths (1 / 2) = 50" by (simp add: hundredths_def)
  then have t2: "twoDecimals (1 / 2) = ''0.50''"
    by (simp add: twoDecimals_def digits del: decimal.simps)
  have 2: "filter isLowCurrentRatio (warnings (validateBalanceSheet ?d2))
      = [LowCurrentRatio (Digits ''0.50'')]"
    using validateBalanceSheet_liquidity_finding [of ?d2 100000 200000 "1 / 2"] d53 q2
    by (simp add: exampleBalanceSheet_def t2)
  have q3: "js_div (Fin 3) (Fin 200) = Fin ?r"
    by (simp add: js_div_finite toDouble_3_200)
  have "hundredths \<bar>?r\<bar> = 1" by (simp add: hundredths_def)
  then have t3: "twoDecimals ?r = ''0.01''"
    by (simp add: twoDecimals_def digits del: decimal.simps)
  have 3: "filter isLowCurrentRatio (warnings (validateBalanceSheet ?d3))
      = [LowCurrentRatio (Digits ''0.01'')]"
    using validateBalanceSheet_liquidity_finding [of ?d3 3 200 ?r] d53 q3
    by (simp add: exampleBalanceSheet_def t3)
  from 1 2 3 show ?thesis by simp
qed

section \<open>Report assembly\<close>

text \<open>
  C7. Report assembly is deterministic: two invocations on the same analysed profile
  (which carries the compliance outcome) and the same review results give reports that
  are identical except for the report date, or fail alike; the other fields of the
  engine and the clock have no other influence.
\<close>

theorem createReport_deterministic:
  "clientProfile e1 = clientProfile e2 \<Longrightarrow> reviewResults e1 = reviewResults e2 \<Longrightarrow>
   map_sum id (\<lambda>r. r \<lparr> reportDate := d \<rparr>) (createReport e1 t1)
     = map_sum id (\<lambda>r. r \<lparr> reportDate := d \<rparr>) (createReport e2 t2)"
proof -
  assume p: "clientProfile e1 = clientProfile e2"
  show ?thesis
  proof (cases "clientProfile e2")
    case None
    with p show ?thesis by (simp only: createReport_def option.case)
  next
    case (Some pr)
    note pr = this
    show ?thesis
    proof (cases "complianceRequirements pr")
      case None
      with p pr show ?thesis by (simp only: createReport_def option.case)
    next
      case (Some c)
      with p pr show ?thesis
        by (simp only: createReport_def option.case map_sum.simps report.update_convs)
    qed
  qed
qed

text \<open>A profile that the analysis returned carries its compliance flags.\<close>

lemma analyzeClientProfile_compliance:
  "analyzeClientProfile fd = Inr p \<Longrightarrow>
   complianceRequirements p = Some (determineCompliance fd)"
  by (auto simp add: analyzeClientProfile_def split: sum.splits)

lemma createReport_analyzed:
  assumes "clientProfile e = Some p" "complianceRequirements p = Some c"
  shows "\<exists>r. createReport e t = Inr r"
  using assms by (simp only: createReport_def option.case) blast

text \<open>
  The report of the example at two dates and with two values of the usage counter.
\<close>

theorem createReport_deterministic_witness:
  "map_sum id (\<lambda>r. r \<lparr> reportDate := [] \<rparr>) (createReport exampleEngine ''1/4/2025'')
     = map_sum id (\<lambda>r. r \<lparr> reportDate := [] \<rparr>)
         (createReport (exampleEngine \<lparr> usageCount := 5 \<rparr>) ''2/4/2025'')
   \<and> \<not> isl (createReport exampleEngine ''1/4/2025'')"
proof -
  have "clientProfile exampleEngine = clientProfile (exampleEngine \<lparr> usageCount := 5 \<rparr>)"
       "reviewResults exampleEngine = reviewResults (exampleEngine \<lparr> usageCount := 5 \<rparr>)"
    by simp_all
  then have "map_sum id (\<lambda>r. r \<lparr> reportDate := [] \<rparr>) (createReport exampleEngine ''1/4/2025'')
     = map_sum id (\<lambda>r. r \<lparr> reportDate := [] \<rparr>)
         (createReport (exampleEngine \<lparr> usageCount := 5 \<rparr>) ''2/4/2025'')"
    by (rule createReport_deterministic)
  moreover have "\<not> isl (createReport exampleEngine ''1/4/2025'')"
  proof -
    obtain p where p: "analyzeClientProfile (formData exampleForm) = Inr p"
      using analyzeClientProfile_formData [of exampleForm] by blast
    then have "clientProfile exampleEngine = Some p"
      by (simp add: exampleEngine_def handleProfileSubmit_def)
    moreover from p have "complianceRequirements p = Some (determineCompliance (formData exampleForm))"
      by (rule analyzeClientProfile_compliance)
    ultimately obtain r where "createReport exampleEngine ''1/4/2025'' = Inr r"
      using createReport_analyzed by blast
    then show ?thesis by simp
  qed
  ultimately show ?thesis by simp
qed


section \<open>The usage counter\<close>

text \<open>At the limit a click changes nothing.\<close>

lemma generateReport_refused:
  "maxUsage (popup w) \<le> usageCount (popup w) \<Longrightarrow> generateReport w = w"
  by (simp add: generateReport_def)

text \<open>With an analysed profile the callback increments the counter and stores it.\<close>

lemma generateReport_callback_counts:
  assumes "clientProfile (popup w) = Some p" "complianceRequirements p = Some c"
  shows "generateReport_callback t w =
     w \<lparr> popup := (popup w) \<lparr> usageCount := usageCount (popup w) + 1 \<rparr>,
         stored_usageCount := Some (usageCount (popup w) + 1) \<rparr>"
proof -
  obtain r where "createReport (popup w) t = Inr r"
    using createReport_analyzed [OF assms] by blast
  then show ?thesis by (simp add: generateReport_callback_def)
qed

text \<open>
  The states in which a report can be generated: no callback is pending, the limit is
  99, the page shows the loading pane and the profile has been analysed.
\<close>

lemma one_report:
  assumes "timers w = 0" "maxUsage (popup w) = 99" "reportTab w = TabWithContent"
    "clientProfile (popup w) = Some p" "complianceRequirements p = Some c"
    "usageCount (popup w) < 99"
  shows "timers (run w [ClickGenerate, TimerFires t]) = 0
    \<and> maxUsage (popup (run w [ClickGenerate, TimerFires t])) = 99
    \<and> reportTab (run w [ClickGenerate, TimerFires t]) = TabWithContent
    \<and> clientProfile (popup (run w [ClickGenerate, TimerFires t])) = Some p
    \<and> usageCount (popup (run w [ClickGenerate, TimerFires t])) = usageCount (popup w) + 1"
  using assms
  by (simp add: run_def generateReport_def generateReport_callback_counts [where p = p and c = c])

lemma two_overlapping_reports:
  assumes "timers w = 0" "maxUsage (popup w) = 99" "reportTab w = TabWithContent"
    "clientProfile (popup w) = Some p" "complianceRequirements p = Some c"
    "usageCount (popup w) < 99"
  shows "usageCount (popup (run w [ClickGenerate, ClickGenerate, TimerFires t, TimerFires t]))
           = usageCount (popup w) + 2
    \<and> stored_usageCount (run w [ClickGenerate, ClickGenerate, TimerFires t, TimerFires t])
           = Some (usageCount (popup w) + 2)"
  using assms
  by (simp add: run_def generateReport_def generateReport_callback_counts [where p = p and c = c])

lemma run_append: "run w (xs @ ys) = run (run w xs) ys"
  by (simp add: run_def)

text \<open>Reports generated one after the other count one each, up to the limit.\<close>

lemma sequentialReports_count:
  "timers w = 0 \<Longrightarrow> maxUsage (popup w) = 99 \<Longrightarrow> reportTab w = TabWithContent \<Longrightarrow>
   clientProfile (popup w) = Some p \<Longrightarrow> complianceRequirements p = Some c \<Longrightarrow>
   usageCount (popup w) + int k \<le> 99 \<Longrightarrow>
   timers (run w (sequentialReports k)) = 0
    \<and> maxUsage (popup (run w (sequentialReports k))) = 99
    \<and> reportTab (run w (sequentialReports k)) = TabWithContent
    \<and> clientProfile (popup (run w (sequentialReports k))) = Some p
    \<and> usageCount (popup (run w (sequentialReports k))) = usageCount (popup w) + int k"
proof (induction k arbitrary: w)
  case 0
  then show ?case by (simp add: sequentialReports_def run_def)
next
  case (Suc k)
  let ?w = "run w [ClickGenerate, TimerFires ''1/4/2025'']"
  have lt: "usageCount (popup w) < 99" using Suc.prems(6) by simp
  note one = one_report [OF Suc.prems(1) Suc.prems(2) Suc.prems(3) Suc.prems(4)
      Suc.prems(5) lt, of "''1/4/2025''"]
  have s: "sequentialReports (Suc k) = [ClickGenerate, TimerFires ''1/4/2025''] @ sequentialReports k"
    by (simp add: sequentialReports_def)
  have "usageCount (popup ?w) + int k \<le> 99" using one Suc.prems(6) by simp
  with one have "timers (run ?w (sequentialReports k)) = 0
    \<and> maxUsage (popup (run ?w (sequentialReports k))) = 99
    \<and> reportTab (run ?w (sequentialReports k)) = TabWithContent
    \<and> clientProfile (popup (run ?w (sequentialReports k))) = Some p
    \<and> usageCount (popup (run ?w (sequentialReports k))) = usageCount (popup ?w) + int k"
    using Suc.prems(5) by (intro Suc.IH) simp_all
  with one show ?case unfolding s run_append by simp
qed

text \<open>
  C8. The counter starts at 0, grows by one with each report and is never incremented
  past 99. In the history \<open>overlappingReports\<close>, on a page whose report tab has its
  loading pane, the counter is 98 when two clicks pass the test of the limit before
  either callback has run; both callbacks increment, and the counter and its stored copy
  are 100: \<open>checkUsageLimit\<close> then reports -1 reports remaining.
\<close>

theorem usageCount_exceeds_cap:
  "usageCount (popup (run (fresh TabWithContent) overlappingReports)) = 100
   \<and> stored_usageCount (run (fresh TabWithContent) overlappingReports) = Some 100
   \<and> checkUsageLimit (run (fresh TabWithContent) overlappingReports)
       = \<lparr> current = 100, max_usage = 99, remaining = - 1, exceeded = True \<rparr>"
proof -
  obtain p where p: "analyzeClientProfile (formData exampleForm) = Inr p"
    using analyzeClientProfile_formData [of exampleForm] by blast
  then have c: "complianceRequirements p = Some (determineCompliance (formData exampleForm))"
    by (rule analyzeClientProfile_compliance)
  let ?w0 = "run (fresh TabWithContent) [Install, OpenPopup, SubmitProfile exampleForm]"
  have w0: "timers ?w0 = 0" "maxUsage (popup ?w0) = 99" "reportTab ?w0 = TabWithContent"
    "clientProfile (popup ?w0) = Some p"
    "usageCount (popup ?w0) = 0"
    by (simp_all add: run_def fresh_def initializeStorage_def loadData_def newEngine_def
          handleProfileSubmit_def p)
  let ?w1 = "run ?w0 (sequentialReports 98)"
  have w1: "timers ?w1 = 0 \<and> maxUsage (popup ?w1) = 99 \<and> reportTab ?w1 = TabWithContent
    \<and> clientProfile (popup ?w1) = Some p
    \<and> usageCount (popup ?w1) = usageCount (popup ?w0) + int 98"
    using w0 c by (intro sequentialReports_count) simp_all
  have "usageCount (popup ?w1) < 99" using w0 w1 by simp
  with w1 have
    "usageCount (popup (run ?w1
        [ClickGenerate, ClickGenerate, TimerFires ''1/4/2025'', TimerFires ''1/4/2025'']))
       = usageCount (popup ?w1) + 2
     \<and> stored_usageCount (run ?w1
        [ClickGenerate, ClickGenerate, TimerFires ''1/4/2025'', TimerFires ''1/4/2025''])
       = Some (usageCount (popup ?w1) + 2)"
    using c by (intro two_overlapping_reports) simp_all
  then show ?thesis using w0 w1
    unfolding overlappingReports_def run_append by (simp add: checkUsageLimit_def)
qed


section \<open>Lookups of statutory data\<close>

text \<open>
  C9, as the specification states it: a lookup miss is an explicit error, never an empty
  value. The approved source \<open>icai\<close> has no table, so the threshold asked for is
  missing, and the lookup returns the empty object.
\<close>

theorem fetchStatutoryData_miss_returns_empty:
  "datum ''icai'' ''tax-audit-threshold'' = None
   \<and> fetchStatutoryData ''icai'' ''tax-audit-threshold'' = Inr (Categories [])"
  by (simp add: datum_def fetchStatutoryData_def getStatutoryDataSimulated_def getProperty_def
        statutoryData_def approvedSources_def objectPrototypeMembers_def)

lemma approved_not_inherited: "source \<in> set (map fst approvedSources) \<Longrightarrow> source \<notin> set objectPrototypeMembers"
  by (auto simp add: approvedSources_def objectPrototypeMembers_def)

lemma statutoryData_approved: "map_of statutoryData source = Some t \<Longrightarrow> source \<in> set (map fst approvedSources)"
  by (auto simp add: approvedSources_def statutoryData_def split: if_splits)

lemma getProperty_approvedSources:
  "getProperty approvedSources source = Absent
     \<longleftrightarrow> source \<notin> set (map fst approvedSources) \<and> source \<notin> set objectPrototypeMembers"
  by (auto simp add: getProperty_def map_of_eq_None_iff [symmetric] split: option.splits)

text \<open>
  C9, amended. The table of approved sources names four sources. Of the names that are
  not inherited from \<open>Object.prototype\<close>, the lookup accepts exactly these four and
  fails on every other one, with the error of the unauthorized source, its only error.
  For an approved source the query is not read: the lookup returns all the categories
  of the source, whether the queried key is among them or not, and the empty object
  when the source has no table, as \<open>icai\<close> has none.
\<close>

theorem fetchStatutoryData_lookup:
  "(source \<notin> set objectPrototypeMembers \<longrightarrow>
      isl (fetchStatutoryData source query) = (source \<notin> set (map fst approvedSources)))
   \<and> (isl (fetchStatutoryData source query) \<longrightarrow>
        fetchStatutoryData source query = Inl UnauthorizedDataSource)
   \<and> (source \<in> set (map fst approvedSources) \<longrightarrow>
        fetchStatutoryData source query
          = Inr (Categories (case map_of statutoryData source of None \<Rightarrow> [] | Some t \<Rightarrow> t)))
   \<and> fetchStatutoryData source query = fetchStatutoryData source query'
   \<and> fetchStatutoryData ''icai'' query = Inr (Categories [])"
proof (intro conjI impI)
  assume "source \<notin> set objectPrototypeMembers"
  then show "isl (fetchStatutoryData source query) = (source \<notin> set (map fst approvedSources))"
    using getProperty_approvedSources [of source]
    by (cases "getProperty approvedSources source") (auto simp add: fetchStatutoryData_def)
next
  assume "isl (fetchStatutoryData source query)"
  then show "fetchStatutoryData source query = Inl UnauthorizedDataSource"
    by (cases "getProperty approvedSources source") (auto simp add: fetchStatutoryData_def)
next
  assume a: "source \<in> set (map fst approvedSources)"
  then have n: "source \<notin> set objectPrototypeMembers" by (rule approved_not_inherited)
  from a have "getProperty approvedSources source \<noteq> Absent"
    by (simp add: getProperty_approvedSources)
  then have "fetchStatutoryData source query = Inr (getStatutoryDataSimulated source query)"
    by (cases "getProperty approvedSources source") (auto simp add: fetchStatutoryData_def)
  moreover have "getStatutoryDataSimulated source query
      = Categories (case map_of statutoryData source of None \<Rightarrow> [] | Some t \<Rightarrow> t)"
    using n by (simp add: getStatutoryDataSimulated_def getProperty_def split: option.split)
  ultimately show "fetchStatutoryData source query
          = Inr (Categories (case map_of statutoryData source of None \<Rightarrow> [] | Some t \<Rightarrow> t))"
    by simp
next
  show "fetchStatutoryData source query = fetchStatutoryData source query'"
    by (simp add: fetchStatutoryData_def getStatutoryDataSimulated_def cong: property.case_cong)
next
  show "fetchStatutoryData ''icai'' query = Inr (Categories [])"
    by (simp add: fetchStatutoryData_def getStatutoryDataSimulated_def getProperty_def
        statutoryData_def approvedSources_def objectPrototypeMembers_def)
qed

theorem fetchStatutoryData_lookup_witness:
  "fetchStatutoryData ''rbi'' ''repo-rate'' = Inl UnauthorizedDataSource
   \<and> fetchStatutoryData ''icai'' ''tax-audit-threshold'' = Inr (Categories [])
   \<and> fetchStatutoryData ''gst'' ''no-such-key'' = fetchStatutoryData ''gst'' ''registration-threshold''
   \<and> \<not> isl (fetchStatutoryData ''gst'' ''no-such-key'')"
proof -
  have 1: "fetchStatutoryData ''rbi'' ''repo-rate'' = Inl UnauthorizedDataSource"
    using fetchStatutoryData_lookup [of "''rbi''" "''repo-rate''" "''repo-rate''"]
    by (simp add: approvedSources_def objectPrototypeMembers_def)
  have "map_of statutoryData ''icai'' = None" by (simp add: statutoryData_def)
  then have 2: "fetchStatutoryData ''icai'' ''tax-audit-threshold'' = Inr (Categories [])"
    using fetchStatutoryData_lookup [of "''icai''" "''tax-audit-threshold''" "''tax-audit-threshold''"]
    by (simp add: approvedSources_def)
  note g = fetchStatutoryData_lookup [of "''gst''" "''no-such-key''" "''registration-threshold''"]
  have 3: "fetchStatutoryData ''gst'' ''no-such-key'' = fetchStatutoryData ''gst'' ''registration-threshold''"
    using g by blast
  have "''gst'' \<in> set (map fst approvedSources)" by (simp add: approvedSources_def)
  with g have 4: "\<not> isl (fetchStatutoryData ''gst'' ''no-such-key'')" by simp
  from 1 2 3 4 show ?thesis by blast
qed


end
